theory Spec2Isabelle
  imports Main "HOL-Library.AList" "HOL-Library.FSet" "HOL-Library.Word"
begin

text \<open>
  A shallow embedding of \<^verbatim>\<open>go/vt/vtctl/reparentutil/replication.go\<close>: the candidate
  position resolver \<^verbatim>\<open>FindPositionsOfAllCandidates\<close>, the snapshot builder
  \<^verbatim>\<open>stopReplicationAndBuildStatusMaps\<close> with its closure \<^verbatim>\<open>fillStatus\<close>, and
  \<^verbatim>\<open>SetReplicationSource\<close>. Functions keep their Go names. What the functions call in
  other packages (the tablet manager client, the topology server, the durability policy,
  the replication and SQL error packages) is a parameter; the task group of package
  \<^verbatim>\<open>concurrency\<close>, on which the builder waits, is modelled from the specification.
  Logging and event dispatch have no effect on the results and are left out.
\<close>

section \<open>Errors, Go maps and protobuf messages\<close>

text \<open>
  Errors are values. \<open>External\<close> is an error handed back by a collaborator (an RPC, the
  topology server, a decoder); \<open>Errorf\<close> and \<open>Wrapf\<close> are \<^verbatim>\<open>vterrors.Errorf\<close> and
  \<^verbatim>\<open>vterrors.Wrapf\<close> with the format string and the arguments as written at the call.
\<close>

datatype Code = UNAVAILABLE | FAILED_PRECONDITION | INVALID_ARGUMENT

datatype vterror =
    External string
  | Errorf Code string "fmtarg list"
  | Wrapf vterror string "fmtarg list"
and fmtarg = ArgString string | ArgError vterror

text \<open>
  A Go map is an association list with distinct keys. The order of the list is the order
  in which a \<^verbatim>\<open>range\<close> loop visits the entries, which Go leaves unspecified; an assignment
  \<^verbatim>\<open>m[k] = v\<close> is \<open>AList.update k v m\<close>.
\<close>

type_synonym ('k, 'v) gomap = "('k \<times> 'v) list"

definition keys :: "('k, 'v) gomap \<Rightarrow> 'k set" where
  "keys m = fst ` set m"

text \<open>The fields of \<^verbatim>\<open>replicationdatapb.Status\<close> and \<^verbatim>\<open>PrimaryStatus\<close> that the code reads.\<close>

record Status =
  Status_Position :: string
  Status_RelayLogPosition :: string
  BackupRunning :: bool

record StopReplicationStatus =
  Before :: "Status option"
  After :: "Status option"

record PrimaryStatus =
  PrimaryStatus_Position :: string
  FilePosition :: string

section \<open>Candidate position resolver: FindPositionsOfAllCandidates\<close>

text \<open>
  The package \<^verbatim>\<open>go/mysql/replication\<close> is outside the sources at hand. Its position type
  is the type parameter \<open>'pos\<close>, and the four operations the function calls are taken as
  parameters: the conversion of a status message, the decoder of a wire position, the
  type test \<^verbatim>\<open>GTIDSet.(replication.Mysql56GTIDSet)\<close> and \<^verbatim>\<open>Position.IsZero\<close>.
\<close>

record 'pos ReplicationStatus =
  Position :: 'pos
  RelayLogPosition :: 'pos

record 'pos replication =
  ProtoToReplicationStatus :: "Status option \<Rightarrow> 'pos ReplicationStatus"
  DecodePosition :: "string \<Rightarrow> vterror + 'pos"
  IsMysql56GTIDSet :: "'pos \<Rightarrow> bool"
  IsZero :: "'pos \<Rightarrow> bool"

text \<open>
  Modelled from the spec: \<^verbatim>\<open>concurrency.FirstErrorRecorder\<close> is not among the sources. It
  is the "deferred error" of the resolver: it keeps the first error recorded and drops the
  later ones; \<open>None\<close> is the recorder without errors.
\<close>

type_synonym FirstErrorRecorder = "vterror option"

text \<open>Modelled from the spec: \<^verbatim>\<open>FirstErrorRecorder.RecordError\<close> keeps the first error.\<close>

definition RecordError_first :: "FirstErrorRecorder \<Rightarrow> vterror \<Rightarrow> FirstErrorRecorder" where
  "RecordError_first r e = (case r of None \<Rightarrow> Some e | Some e0 \<Rightarrow> Some e0)"

text \<open>Modelled from the spec: \<^verbatim>\<open>FirstErrorRecorder.HasErrors\<close>, whether an error was recorded.\<close>

definition HasErrors_first :: "FirstErrorRecorder \<Rightarrow> bool" where
  "HasErrors_first r = (r \<noteq> None)"

text \<open>Modelled from the spec: \<^verbatim>\<open>FirstErrorRecorder.Error\<close>, the deferred error or nil.\<close>

definition Error_first :: "FirstErrorRecorder \<Rightarrow> vterror option" where
  "Error_first r = r"

text \<open>
  First loop: build \<^verbatim>\<open>replicationStatusMap\<close> from the proto types. Each later loop over
  this map visits it in the order in which it was built. The order matters only for which
  of several errors is returned and for the order of the entries of the result, and the
  order of the argument is arbitrary.
\<close>

definition buildReplicationStatusMap ::
  "'pos replication \<Rightarrow> (string, StopReplicationStatus) gomap
     \<Rightarrow> (string, 'pos ReplicationStatus) gomap" where
  "buildReplicationStatusMap R statusMap =
     foldl (\<lambda>m (alias, statuspb). AList.update alias (ProtoToReplicationStatus R (After statuspb)) m)
       [] statusMap"

text \<open>Second loop: classify the relay log positions and record the empty ones.\<close>

record detection =
  isGTIDBased :: bool
  isNonGTIDBased :: bool
  emptyRelayPosErrorRecorder :: FirstErrorRecorder

definition emptyRelayPosError :: "string \<Rightarrow> vterror" where
  "emptyRelayPosError alias =
     Errorf UNAVAILABLE
       ''encountered tablet %v with no relay log position, when at least one other tablet in the status map has GTID based relay log positions''
       [ArgString alias]"

definition detectStep ::
  "'pos replication \<Rightarrow> detection \<Rightarrow> string \<times> 'pos ReplicationStatus \<Rightarrow> detection" where
  "detectStep R d entry =
     (case entry of (alias, status) \<Rightarrow>
        let d1 = (if IsMysql56GTIDSet R (RelayLogPosition status)
                  then d\<lparr>isGTIDBased := True\<rparr>
                  else d\<lparr>isNonGTIDBased := True\<rparr>)
        in if IsZero R (RelayLogPosition status)
           then d1\<lparr>emptyRelayPosErrorRecorder :=
                     RecordError_first (emptyRelayPosErrorRecorder d1) (emptyRelayPosError alias)\<rparr>
           else d1)"

definition detect ::
  "'pos replication \<Rightarrow> (string, 'pos ReplicationStatus) gomap \<Rightarrow> detection" where
  "detect R replicationStatusMap =
     foldl (detectStep R)
       \<lparr>isGTIDBased = False, isNonGTIDBased = False, emptyRelayPosErrorRecorder = None\<rparr>
       replicationStatusMap"

text \<open>Third loop: store the final positions in the map.\<close>

definition storePositions ::
  "bool \<Rightarrow> (string, 'pos ReplicationStatus) gomap \<Rightarrow> (string, 'pos) gomap" where
  "storePositions gtidBased replicationStatusMap =
     foldl (\<lambda>positionMap (alias, status).
              if \<not> gtidBased then AList.update alias (Position status) positionMap
              else AList.update alias (RelayLogPosition status) positionMap)
       [] replicationStatusMap"

text \<open>Fourth loop: the primaries, with the early return on a position that does not decode.\<close>

definition decodeError :: "string \<Rightarrow> vterror \<Rightarrow> vterror" where
  "decodeError alias err =
     Wrapf err ''could not decode a primary status executed position for tablet %v: %v''
       [ArgString alias, ArgError err]"

fun storePrimaryPositions ::
  "'pos replication \<Rightarrow> (string, PrimaryStatus) gomap \<Rightarrow> (string, 'pos) gomap
     \<Rightarrow> vterror + (string, 'pos) gomap" where
  "storePrimaryPositions R [] positionMap = Inr positionMap"
| "storePrimaryPositions R ((alias, primaryStatus) # rest) positionMap =
     (case DecodePosition R (PrimaryStatus_Position primaryStatus) of
        Inl err \<Rightarrow> Inl (decodeError alias err)
      | Inr executedPosition \<Rightarrow>
          storePrimaryPositions R rest (AList.update alias executedPosition positionMap))"

definition mixedError :: vterror where
  "mixedError =
     Errorf FAILED_PRECONDITION ''encountered mix of GTID-based and non GTID-based relay logs'' []"

definition FindPositionsOfAllCandidates ::
  "'pos replication \<Rightarrow> (string, StopReplicationStatus) gomap \<Rightarrow> (string, PrimaryStatus) gomap
     \<Rightarrow> vterror + ((string, 'pos) gomap \<times> bool)" where
  "FindPositionsOfAllCandidates R statusMap primaryStatusMap =
     (let replicationStatusMap = buildReplicationStatusMap R statusMap;
          d = detect R replicationStatusMap
      in if isGTIDBased d \<and> HasErrors_first (emptyRelayPosErrorRecorder d)
         then (case Error_first (emptyRelayPosErrorRecorder d) of
                 Some err \<Rightarrow> Inl err
               | None \<Rightarrow> Inr ([], False))
         else if isGTIDBased d \<and> isNonGTIDBased d
         then Inl mixedError
         else (case storePrimaryPositions R primaryStatusMap
                      (storePositions (isGTIDBased d) replicationStatusMap) of
                 Inl err \<Rightarrow> Inl err
               | Inr positionMap \<Rightarrow> Inr (positionMap, isGTIDBased d)))"

section \<open>Replication snapshot builder: stopReplicationAndBuildStatusMaps\<close>

text \<open>
  The fields of \<^verbatim>\<open>topodatapb.TabletAlias\<close> and \<^verbatim>\<open>topodatapb.Tablet\<close> that identify a
  tablet; \<^verbatim>\<open>topo.TabletInfo\<close> embeds the tablet. A pointer that the code tests against
  nil or only passes on is an \<open>option\<close>.
\<close>

record TabletAlias =
  Cell :: string
  Uid :: "32 word"

record Tablet =
  Alias :: "TabletAlias option"
  Keyspace :: string
  Shard :: string

record TabletInfo =
  Tablet :: Tablet

record replicationSnapshot =
  statusMap :: "(string, StopReplicationStatus) gomap"
  primaryStatusMap :: "(string, PrimaryStatus) gomap"
  reachableTablets :: "Tablet list"
  tabletsBackupState :: "(string, bool) gomap"

text \<open>\<^verbatim>\<open>concurrency.Error\<close>, the message a task sends on \<^verbatim>\<open>errChan\<close>; \<open>None\<close> is the nil error.\<close>

record concurrencyError =
  Err :: "vterror option"
  MustWaitFor :: bool

text \<open>
  The collaborators. The tablet manager client answers each RPC with an error or a value;
  \<^verbatim>\<open>sqlerror.NewSQLErrorFromError(err).(*sqlerror.SQLError)\<close> either gives an SQL error
  with its number, a nil pointer of that type, or a value of another type; the constant
  \<^verbatim>\<open>sqlerror.ERNotReplica\<close> is a parameter as well. Every call that leaves the function
  is written to a log, so that "this call is made" and "this call is never made" can be
  stated.
\<close>

record tmclient =
  StopReplicationAndGetStatus :: "Tablet \<Rightarrow> vterror + StopReplicationStatus"
  DemotePrimary :: "Tablet \<Rightarrow> vterror + PrimaryStatus"
  tmc_SetReplicationSource ::
    "Tablet \<Rightarrow> TabletAlias option \<Rightarrow> int \<Rightarrow> string \<Rightarrow> bool \<Rightarrow> bool \<Rightarrow> int \<Rightarrow> vterror option"

datatype SQLErrorCast = SQLError nat | NilSQLError | NotSQLError

record sqlerror =
  NewSQLErrorFromError :: "vterror \<Rightarrow> SQLErrorCast"
  ERNotReplica :: nat

datatype call =
    StopReplicationAndGetStatus_called Tablet
  | DemotePrimary_called Tablet
  | haveRevoked_called "Tablet list" "Tablet list"
  | GetShardPrimaryForTablet_called Tablet
  | GetKeyspaceDurability_called string
  | GetDurabilityPolicy_called string
  | IsReplicaSemiSync_called Tablet Tablet
  | SetReplicationSource_called Tablet "TabletAlias option" bool

definition isNotReplica :: "sqlerror \<Rightarrow> vterror \<Rightarrow> bool" where
  "isNotReplica sq err =
     (case NewSQLErrorFromError sq err of
        SQLError number \<Rightarrow> number = ERNotReplica sq
      | NilSQLError \<Rightarrow> False
      | NotSQLError \<Rightarrow> False)"

definition demoteError :: "string \<Rightarrow> vterror \<Rightarrow> vterror" where
  "demoteError alias err =
     Wrapf err ''replica %v thinks it's primary but we failed to demote it: %v''
       [ArgString alias, ArgError err]"

definition statusError :: "string \<Rightarrow> vterror \<Rightarrow> vterror" where
  "statusError alias err =
     Wrapf err ''error when getting replication status for alias %v: %v''
       [ArgString alias, ArgError err]"

text \<open>
  One run of the closure \<^verbatim>\<open>fillStatus\<close> on the shared snapshot \<open>res\<close>: the snapshot after
  it, the RPCs it issued, and the message its deferred function sends on \<^verbatim>\<open>errChan\<close>.
\<close>

record taskOutcome =
  snapshot :: replicationSnapshot
  issued :: "call list"
  report :: concurrencyError

definition fillStatus ::
  "tmclient \<Rightarrow> sqlerror \<Rightarrow> string \<Rightarrow> TabletInfo \<Rightarrow> bool \<Rightarrow> replicationSnapshot \<Rightarrow> taskOutcome" where
  "fillStatus tmc sq alias tabletInfo mustWaitForTablet res =
     (case StopReplicationAndGetStatus tmc (Tablet tabletInfo) of
        Inl err \<Rightarrow>
          (if isNotReplica sq err
           then (case DemotePrimary tmc (Tablet tabletInfo) of
                   Inl err' \<Rightarrow>
                     \<lparr>snapshot = res,
                      issued = [StopReplicationAndGetStatus_called (Tablet tabletInfo),
                                DemotePrimary_called (Tablet tabletInfo)],
                      report = \<lparr>Err = Some (demoteError alias err'),
                                MustWaitFor = mustWaitForTablet\<rparr>\<rparr>
                 | Inr primaryStatus \<Rightarrow>
                     \<lparr>snapshot = res
                        \<lparr>primaryStatusMap := AList.update alias primaryStatus (primaryStatusMap res),
                         reachableTablets := reachableTablets res @ [Tablet tabletInfo]\<rparr>,
                      issued = [StopReplicationAndGetStatus_called (Tablet tabletInfo),
                                DemotePrimary_called (Tablet tabletInfo)],
                      report = \<lparr>Err = None, MustWaitFor = mustWaitForTablet\<rparr>\<rparr>)
           else \<lparr>snapshot = res,
                 issued = [StopReplicationAndGetStatus_called (Tablet tabletInfo)],
                 report = \<lparr>Err = Some (statusError alias err),
                           MustWaitFor = mustWaitForTablet\<rparr>\<rparr>)
      | Inr stopReplicationStatus \<Rightarrow>
          (let isTakingBackup =
                 (case After stopReplicationStatus of
                    Some after \<Rightarrow> BackupRunning after
                  | None \<Rightarrow> (case Before stopReplicationStatus of
                               Some before \<Rightarrow> BackupRunning before
                             | None \<Rightarrow> False))
           in \<lparr>snapshot = res
                 \<lparr>statusMap := AList.update alias stopReplicationStatus (statusMap res),
                  reachableTablets := reachableTablets res @ [Tablet tabletInfo],
                  tabletsBackupState := AList.update alias isTakingBackup (tabletsBackupState res)\<rparr>,
               issued = [StopReplicationAndGetStatus_called (Tablet tabletInfo)],
               report = \<lparr>Err = None, MustWaitFor = mustWaitForTablet\<rparr>\<rparr>))"

subsection \<open>The bounded task group\<close>

record ErrorGroup =
  NumGoroutines :: int
  NumRequiredSuccesses :: int
  NumAllowedErrors :: int
  NumErrorsToWaitFor :: int

record AllErrorRecorder =
  Errors :: "vterror list"

text \<open>
  Modelled from the spec: the package \<^verbatim>\<open>go/vt/concurrency\<close> (\<^verbatim>\<open>ErrorGroup.Wait\<close>,
  \<^verbatim>\<open>AllErrorRecorder\<close>) is not among the sources. Following section 4.1 of the
  specification, \<open>Wait\<close> takes the messages in the order in which they arrive on the
  channel and returns as soon as no flagged task is outstanding and one of these holds:
  the required successes have been observed; more errors than allowed have been observed;
  all the \<open>NumGoroutines\<close> tasks of the group have reported. Every error seen is appended to
  an ordered collector, whose \<open>Error\<close> is the first one recorded. The channel of the
  builder is never closed, so when the messages run out before \<open>Wait\<close> may return it
  blocks for ever: that is the value \<open>None\<close>. With its collector \<open>Wait\<close> returns the
  number of messages it has taken from the channel. The cancellation that \<open>Wait\<close> signals
  on an early return acts on the tasks only through the answers of their RPCs, which are
  parameters here.
\<close>

text \<open>Modelled from the spec: what \<open>Wait\<close> has counted and collected so far.\<close>

record waitState =
  successCounter :: int
  errCounter :: int
  responseCounter :: nat
  flaggedOutstanding :: int
  recorder :: AllErrorRecorder

text \<open>
  Modelled from the spec: the condition on which \<open>Wait\<close> returns. No flagged task is
  outstanding, and enough successes, too many errors or all tasks have been seen.
\<close>

definition mayReturn :: "ErrorGroup \<Rightarrow> waitState \<Rightarrow> bool" where
  "mayReturn eg st =
     (flaggedOutstanding st \<le> 0 \<and>
      (NumRequiredSuccesses eg \<le> successCounter st
       \<or> NumAllowedErrors eg < errCounter st
       \<or> NumGoroutines eg \<le> int (responseCounter st)))"

text \<open>Modelled from the spec: \<^verbatim>\<open>AllErrorRecorder.RecordError\<close> appends to the ordered collector.\<close>

definition RecordError_all :: "AllErrorRecorder \<Rightarrow> vterror \<Rightarrow> AllErrorRecorder" where
  "RecordError_all r e = r\<lparr>Errors := Errors r @ [e]\<rparr>"

text \<open>Modelled from the spec: \<^verbatim>\<open>AllErrorRecorder.Error\<close> is the first error recorded, or nil.\<close>

definition Error_all :: "AllErrorRecorder \<Rightarrow> vterror option" where
  "Error_all r = (case Errors r of [] \<Rightarrow> None | e # es \<Rightarrow> Some e)"

text \<open>
  Modelled from the spec: one message taken from the channel is counted as a success or
  as an error, an error is collected, and a flagged message is no longer outstanding.
\<close>

definition receive :: "waitState \<Rightarrow> concurrencyError \<Rightarrow> waitState" where
  "receive st msg =
     (let st1 = st\<lparr>responseCounter := Suc (responseCounter st)\<rparr>;
          st2 = (case Err msg of
                   None \<Rightarrow> st1\<lparr>successCounter := successCounter st1 + 1\<rparr>
                 | Some e \<Rightarrow> st1\<lparr>errCounter := errCounter st1 + 1,
                                 recorder := RecordError_all (recorder st1) e\<rparr>)
      in if MustWaitFor msg
         then st2\<lparr>flaggedOutstanding := flaggedOutstanding st2 - 1\<rparr>
         else st2)"

text \<open>
  Modelled from the spec: the loop of \<open>Wait\<close> over the messages that will arrive. It
  returns as soon as it may, before taking the next message.
\<close>

fun waitLoop :: "ErrorGroup \<Rightarrow> waitState \<Rightarrow> concurrencyError list \<Rightarrow> waitState option" where
  "waitLoop eg st [] = (if mayReturn eg st then Some st else None)"
| "waitLoop eg st (msg # msgs) =
     (if mayReturn eg st then Some st else waitLoop eg (receive st msg) msgs)"

text \<open>Modelled from the spec: \<^verbatim>\<open>ErrorGroup.Wait\<close>, started with empty counters.\<close>

definition Wait :: "ErrorGroup \<Rightarrow> concurrencyError list \<Rightarrow> (AllErrorRecorder \<times> nat) option" where
  "Wait eg msgs =
     map_option (\<lambda>st. (recorder st, responseCounter st))
       (waitLoop eg
          \<lparr>successCounter = 0, errCounter = 0, responseCounter = 0,
           flaggedOutstanding = NumErrorsToWaitFor eg, recorder = \<lparr>Errors = []\<rparr>\<rparr>
          msgs)"

subsection \<open>The builder\<close>

text \<open>
  The tasks started by the loop over \<^verbatim>\<open>tabletMap\<close>: one for every tablet that is not
  ignored, with its alias, its tablet and its \<^verbatim>\<open>mustWaitFor\<close> flag.
\<close>

type_synonym task = "string \<times> TabletInfo \<times> bool"

definition tabletAliasToWaitFor ::
  "(TabletAlias \<Rightarrow> string) \<Rightarrow> TabletAlias option \<Rightarrow> string" where
  "tabletAliasToWaitFor TabletAliasString tabletToWaitFor =
     (case tabletToWaitFor of None \<Rightarrow> [] | Some a \<Rightarrow> TabletAliasString a)"

definition goroutines ::
  "(string, TabletInfo) gomap \<Rightarrow> string fset \<Rightarrow> string \<Rightarrow> task list" where
  "goroutines tabletMap ignoredTablets aliasToWaitFor =
     map (\<lambda>(alias, tabletInfo). (alias, tabletInfo, aliasToWaitFor = alias))
       (filter (\<lambda>(alias, tabletInfo). alias |\<notin>| ignoredTablets) tabletMap)"

definition numErrorsToWaitFor :: "task list \<Rightarrow> int" where
  "numErrorsToWaitFor tasks =
     int (length (filter (\<lambda>(alias, tabletInfo, mustWaitFor). mustWaitFor) tasks))"

definition numGoRoutines :: "(string, TabletInfo) gomap \<Rightarrow> string fset \<Rightarrow> int" where
  "numGoRoutines tabletMap ignoredTablets = int (length tabletMap) - int (fcard ignoredTablets)"

definition requiredSuccesses :: "(string, TabletInfo) gomap \<Rightarrow> string fset \<Rightarrow> bool \<Rightarrow> int" where
  "requiredSuccesses tabletMap ignoredTablets waitForAllTablets =
     (if waitForAllTablets then numGoRoutines tabletMap ignoredTablets
      else numGoRoutines tabletMap ignoredTablets - 1)"

definition errgroup ::
  "(string, TabletInfo) gomap \<Rightarrow> string fset \<Rightarrow> string \<Rightarrow> bool \<Rightarrow> ErrorGroup" where
  "errgroup tabletMap ignoredTablets aliasToWaitFor waitForAllTablets =
     \<lparr>NumGoroutines = numGoRoutines tabletMap ignoredTablets,
      NumRequiredSuccesses = requiredSuccesses tabletMap ignoredTablets waitForAllTablets,
      NumAllowedErrors = int (length tabletMap),
      NumErrorsToWaitFor =
        numErrorsToWaitFor (goroutines tabletMap ignoredTablets aliasToWaitFor)\<rparr>"

text \<open>
  The tasks run concurrently. A schedule \<open>completionOrder\<close> lists the aliases in the order
  in which their tasks finish: each task, when its turn comes, runs \<^verbatim>\<open>fillStatus\<close> on
  the shared snapshot under the mutex and then offers its message on the unbuffered
  channel. \<open>Wait\<close> takes the messages in that order. When it returns after \<open>n\<close> messages,
  \<open>late\<close> further tasks may already have changed the snapshot while their messages are
  still waiting on the channel; the snapshot the caller holds is the one after the first
  \<open>n + late\<close> tasks. An alias of the schedule that belongs to no started task is skipped.
  The deadline of the group context shows only in the answers of the RPCs. The log lists
  the calls of the tasks that have run, then the fencing check if it is made.
\<close>

definition scheduled :: "string list \<Rightarrow> task list \<Rightarrow> task list" where
  "scheduled completionOrder tasks =
     List.map_filter
       (\<lambda>alias. map_option (\<lambda>(tabletInfo, mustWaitFor). (alias, tabletInfo, mustWaitFor))
                  (map_of tasks alias))
       completionOrder"

definition emptySnapshot :: replicationSnapshot where
  "emptySnapshot =
     \<lparr>statusMap = [], primaryStatusMap = [], reachableTablets = [], tabletsBackupState = []\<rparr>"

definition runTask ::
  "tmclient \<Rightarrow> sqlerror \<Rightarrow> replicationSnapshot \<times> call list \<Rightarrow> task
     \<Rightarrow> replicationSnapshot \<times> call list" where
  "runTask tmc sq state t =
     (case state of (res, calls) \<Rightarrow>
        case t of (alias, tabletInfo, mustWaitFor) \<Rightarrow>
          let out = fillStatus tmc sq alias tabletInfo mustWaitFor res
          in (snapshot out, calls @ issued out))"

definition runTasks ::
  "tmclient \<Rightarrow> sqlerror \<Rightarrow> task list \<Rightarrow> replicationSnapshot \<times> call list" where
  "runTasks tmc sq tasks = foldl (runTask tmc sq) (emptySnapshot, []) tasks"

definition sent :: "tmclient \<Rightarrow> sqlerror \<Rightarrow> task \<Rightarrow> concurrencyError" where
  "sent tmc sq t =
     (case t of (alias, tabletInfo, mustWaitFor) \<Rightarrow>
        report (fillStatus tmc sq alias tabletInfo mustWaitFor emptySnapshot))"

definition safetyError :: "vterror \<Rightarrow> vterror" where
  "safetyError err =
     Wrapf err ''could not reach sufficient tablets to guarantee safety: %v'' [ArgError err]"

text \<open>
  The function returns a pair as in Go: the snapshot or nil, and the error or nil. The
  fencing check \<^verbatim>\<open>haveRevoked\<close> of the durability policy is a parameter.
\<close>

definition stopReplicationAndBuildStatusMaps ::
  "tmclient \<Rightarrow> sqlerror \<Rightarrow> (TabletAlias \<Rightarrow> string) \<Rightarrow> ('d \<Rightarrow> Tablet list \<Rightarrow> Tablet list \<Rightarrow> bool)
     \<Rightarrow> (string, TabletInfo) gomap \<Rightarrow> string fset \<Rightarrow> TabletAlias option \<Rightarrow> 'd \<Rightarrow> bool
     \<Rightarrow> string list \<Rightarrow> nat
     \<Rightarrow> ((replicationSnapshot option \<times> vterror option) \<times> call list) option" where
  "stopReplicationAndBuildStatusMaps tmc sq TabletAliasString haveRevoked
       tabletMap ignoredTablets tabletToWaitFor durability waitForAllTablets
       completionOrder late =
     (let aliasToWaitFor = tabletAliasToWaitFor TabletAliasString tabletToWaitFor;
          allTablets = map (\<lambda>(alias, tabletInfo). Tablet tabletInfo) tabletMap;
          tasks = scheduled completionOrder (goroutines tabletMap ignoredTablets aliasToWaitFor)
      in case Wait (errgroup tabletMap ignoredTablets aliasToWaitFor waitForAllTablets)
                (map (sent tmc sq) tasks) of
           None \<Rightarrow> None
         | Some (errRecorder, n) \<Rightarrow>
             (case runTasks tmc sq (take (n + late) tasks) of (res, calls) \<Rightarrow>
                if length (Errors errRecorder) \<le> 1
                then Some ((Some res, None), calls)
                else let revokeSuccessful = haveRevoked durability (reachableTablets res) allTablets;
                         calls' = calls @ [haveRevoked_called (reachableTablets res) allTablets]
                     in if \<not> revokeSuccessful
                        then Some ((None, map_option safetyError (Error_all errRecorder)), calls')
                        else Some ((Some res, None), calls')))"

section \<open>SetReplicationSource\<close>

record topology =
  GetShardPrimaryForTablet :: "Tablet \<Rightarrow> vterror + TabletInfo"
  GetKeyspaceDurability :: "string \<Rightarrow> vterror + string"

record 'd policy =
  GetDurabilityPolicy :: "string \<Rightarrow> vterror + 'd"
  IsReplicaSemiSync :: "'d \<Rightarrow> Tablet \<Rightarrow> Tablet \<Rightarrow> bool"

definition SetReplicationSource ::
  "topology \<Rightarrow> 'd policy \<Rightarrow> tmclient \<Rightarrow> Tablet \<Rightarrow> vterror option \<times> call list" where
  "SetReplicationSource ts pol tmc tablet =
     (case GetShardPrimaryForTablet ts tablet of
        Inl err \<Rightarrow> (None, [GetShardPrimaryForTablet_called tablet])
      | Inr shardPrimary \<Rightarrow>
          (case GetKeyspaceDurability ts (Keyspace tablet) of
             Inl err \<Rightarrow>
               (Some err,
                [GetShardPrimaryForTablet_called tablet,
                 GetKeyspaceDurability_called (Keyspace tablet)])
           | Inr durabilityName \<Rightarrow>
               (case GetDurabilityPolicy pol durabilityName of
                  Inl err \<Rightarrow>
                    (Some err,
                     [GetShardPrimaryForTablet_called tablet,
                      GetKeyspaceDurability_called (Keyspace tablet),
                      GetDurabilityPolicy_called durabilityName])
                | Inr durability \<Rightarrow>
                    (let isSemiSync = IsReplicaSemiSync pol durability (Tablet shardPrimary) tablet
                     in (tmc_SetReplicationSource tmc tablet (Alias (Tablet shardPrimary))
                           0 [] False isSemiSync 0,
                         [GetShardPrimaryForTablet_called tablet,
                          GetKeyspaceDurability_called (Keyspace tablet),
                          GetDurabilityPolicy_called durabilityName,
                          IsReplicaSemiSync_called (Tablet shardPrimary) tablet,
                          SetReplicationSource_called tablet (Alias (Tablet shardPrimary))
                            isSemiSync])))))"

section \<open>Notions used in the statements\<close>

abbreviation relayPos :: "'pos replication \<Rightarrow> StopReplicationStatus \<Rightarrow> 'pos" where
  "relayPos R statuspb \<equiv> RelayLogPosition (ProtoToReplicationStatus R (After statuspb))"

abbreviation plainPos :: "'pos replication \<Rightarrow> StopReplicationStatus \<Rightarrow> 'pos" where
  "plainPos R statuspb \<equiv> Position (ProtoToReplicationStatus R (After statuspb))"

text \<open>The number of messages of flagged tasks in a list of messages.\<close>

definition flagged :: "concurrencyError list \<Rightarrow> nat" where
  "flagged msgs = length (filter MustWaitFor msgs)"

text \<open>The calls that a task makes: the two RPCs of the tablet manager client.\<close>

definition isRPC :: "call \<Rightarrow> bool" where
  "isRPC c =
     (case c of
        StopReplicationAndGetStatus_called t \<Rightarrow> True
      | DemotePrimary_called t \<Rightarrow> True
      | _ \<Rightarrow> False)"


section \<open>Test doubles for the collaborators\<close>

text \<open>
  The theorems below hold for every implementation of the collaborators. To evaluate the
  functions on concrete clusters, the collaborators are replaced by small test doubles: a
  position is zero, set-based or offset-based, and its wire form starts with \<open>M\<close> for a
  set-based position and with \<open>F\<close> for an offset-based one; the empty string is the zero
  position. The status conversion decodes on a best-effort basis.
\<close>

datatype stubPosition = ZeroPosition | SetBased string | OffsetBased string

fun stubDecode :: "string \<Rightarrow> vterror + stubPosition" where
  "stubDecode [] = Inr ZeroPosition"
| "stubDecode (c # cs) =
     (if c = CHR ''M'' then Inr (SetBased cs)
      else if c = CHR ''F'' then Inr (OffsetBased cs)
      else Inl (External ''parse error''))"

definition stubBestEffort :: "string \<Rightarrow> stubPosition" where
  "stubBestEffort s = (case stubDecode s of Inl e \<Rightarrow> ZeroPosition | Inr p \<Rightarrow> p)"

definition stubReplication :: "stubPosition replication" where
  "stubReplication =
     \<lparr>ProtoToReplicationStatus =
        (\<lambda>s. case s of
                None \<Rightarrow> \<lparr>Position = ZeroPosition, RelayLogPosition = ZeroPosition\<rparr>
              | Some st \<Rightarrow> \<lparr>Position = stubBestEffort (Status_Position st),
                             RelayLogPosition = stubBestEffort (Status_RelayLogPosition st)\<rparr>),
      DecodePosition = stubDecode,
      IsMysql56GTIDSet = (\<lambda>p. case p of SetBased s \<Rightarrow> True | _ \<Rightarrow> False),
      IsZero = (\<lambda>p. p = ZeroPosition)\<rparr>"

definition stopped :: "string \<Rightarrow> string \<Rightarrow> StopReplicationStatus" where
  "stopped pos relay =
     \<lparr>Before = None,
      After = Some \<lparr>Status_Position = pos, Status_RelayLogPosition = relay, BackupRunning = False\<rparr>\<rparr>"

text \<open>
  A cluster of tablets named by their cell. Tablet \<open>a\<close> is a replica that stops and reports
  its status; \<open>b\<close> thinks it is primary and can be demoted; \<open>d\<close> thinks it is primary and
  cannot be demoted; every other tablet is unreachable. The number of the "not a replica"
  error is arbitrary. The fencing check of the double holds when more than half of the
  tablets were reached.
\<close>

definition tabletNamed :: "string \<Rightarrow> TabletInfo" where
  "tabletNamed cell =
     \<lparr>Tablet = \<lparr>Alias = Some \<lparr>Cell = cell, Uid = 100\<rparr>, Keyspace = ''ks'', Shard = ''0''\<rparr>\<rparr>"

definition stubAliasString :: "TabletAlias \<Rightarrow> string" where
  "stubAliasString a = Cell a"

definition cellOf :: "Tablet \<Rightarrow> string" where
  "cellOf t = (case Alias t of None \<Rightarrow> [] | Some a \<Rightarrow> Cell a)"

definition stubTmc :: tmclient where
  "stubTmc =
     \<lparr>StopReplicationAndGetStatus =
        (\<lambda>t. if cellOf t = ''a'' then Inr (stopped ''Mu:1-5'' ''Mu:1-7'')
              else if cellOf t = ''b'' \<or> cellOf t = ''d'' then Inl (External ''not a replica'')
              else Inl (External ''deadline exceeded'')),
      DemotePrimary =
        (\<lambda>t. if cellOf t = ''b''
              then Inr \<lparr>PrimaryStatus_Position = ''Mu:1-9'', FilePosition = []\<rparr>
              else Inl (External ''demote failed'')),
      tmc_SetReplicationSource =
        (\<lambda>t parent timeCreated waitPosition force semiSync heartbeat. None)\<rparr>"

definition stubSqlerror :: sqlerror where
  "stubSqlerror =
     \<lparr>NewSQLErrorFromError =
        (\<lambda>e. if e = External ''not a replica'' then SQLError 1 else NotSQLError),
      ERNotReplica = 1\<rparr>"

definition stubHaveRevoked :: "unit \<Rightarrow> Tablet list \<Rightarrow> Tablet list \<Rightarrow> bool" where
  "stubHaveRevoked durability reachable allTablets = (length allTablets < 2 * length reachable)"

definition stubTopology :: topology where
  "stubTopology =
     \<lparr>GetShardPrimaryForTablet = (\<lambda>t. Inl (External ''deadline exceeded'')),
      GetKeyspaceDurability = (\<lambda>keyspace. Inr ''semi_sync'')\<rparr>"

definition stubPolicy :: "unit policy" where
  "stubPolicy =
     \<lparr>GetDurabilityPolicy = (\<lambda>name. Inr ()),
      IsReplicaSemiSync = (\<lambda>durability primary replica. True)\<rparr>"

definition cluster :: "string list \<Rightarrow> (string, TabletInfo) gomap" where
  "cluster cells = map (\<lambda>cell. (cell, tabletNamed cell)) cells"

lemmas stub_defs = tabletNamed_def stubAliasString_def cellOf_def stubTmc_def stubSqlerror_def
  stubHaveRevoked_def stopped_def cluster_def stubReplication_def stubBestEffort_def

lemmas builder_defs = tabletAliasToWaitFor_def goroutines_def scheduled_def errgroup_def
  numGoRoutines_def requiredSuccesses_def numErrorsToWaitFor_def sent_def fillStatus_def
  isNotReplica_def Wait_def mayReturn_def receive_def RecordError_all_def Let_def
  runTasks_def runTask_def emptySnapshot_def fcard_fempty fcard_finsert_if

lemmas resolver_defs = FindPositionsOfAllCandidates_def buildReplicationStatusMap_def detect_def
  detectStep_def storePositions_def HasErrors_first_def Error_first_def RecordError_first_def
  Let_def

section \<open>Properties of the candidate position resolver\<close>

subsection \<open>Each loop as a list function\<close>

lemma update_fresh: "k \<notin> fst ` set al \<Longrightarrow> AList.update k v al = al @ [(k, v)]"
  by (induction al) auto

lemma foldl_update_fresh:
  "distinct (map fst xs) \<Longrightarrow> fst ` set xs \<inter> fst ` set acc = {} \<Longrightarrow>
   foldl (\<lambda>m (a, s). AList.update a (f a s) m) acc xs = acc @ map (\<lambda>(a, s). (a, f a s)) xs"
proof (induction xs arbitrary: acc)
  case Nil
  then show ?case by simp
next
  case (Cons x xs)
  obtain a s where x: "x = (a, s)" by (cases x)
  from Cons.prems have fresh: "a \<notin> fst ` set acc" by (auto simp: x)
  have d: "distinct (map fst xs)" using Cons.prems by simp
  have disj: "fst ` set xs \<inter> fst ` set (acc @ [(a, f a s)]) = {}"
    using Cons.prems by (auto simp: x image_iff)
  show ?case
    using Cons.IH [OF d disj] by (simp add: x update_fresh [OF fresh])
qed

lemma buildReplicationStatusMap_map:
  "distinct (map fst statuses) \<Longrightarrow>
   buildReplicationStatusMap R statuses =
     map (\<lambda>(alias, statuspb). (alias, ProtoToReplicationStatus R (After statuspb))) statuses"
  unfolding buildReplicationStatusMap_def
  using foldl_update_fresh [of statuses "[]" "\<lambda>a s. ProtoToReplicationStatus R (After s)"]
  by simp

lemma storePositions_map:
  "distinct (map fst rsm) \<Longrightarrow>
   storePositions g rsm =
     map (\<lambda>(alias, status). (alias, if g then RelayLogPosition status else Position status)) rsm"
proof -
  assume d: "distinct (map fst rsm)"
  have "storePositions g rsm =
        foldl (\<lambda>m (a, s). AList.update a (if g then RelayLogPosition s else Position s) m) [] rsm"
    unfolding storePositions_def by (rule arg_cong [where f = "\<lambda>h. foldl h [] rsm"]) (auto simp: fun_eq_iff)
  then show ?thesis
    using foldl_update_fresh [OF d, of "[]" "\<lambda>a s. if g then RelayLogPosition s else Position s"]
    by simp
qed

lemma detectStep_gtid:
  "isGTIDBased (detectStep R d (a, st)) = (isGTIDBased d \<or> IsMysql56GTIDSet R (RelayLogPosition st))"
  by (simp add: detectStep_def Let_def)

lemma detectStep_nongtid:
  "isNonGTIDBased (detectStep R d (a, st)) =
     (isNonGTIDBased d \<or> \<not> IsMysql56GTIDSet R (RelayLogPosition st))"
  by (simp add: detectStep_def Let_def)

lemma detectStep_empty:
  "emptyRelayPosErrorRecorder (detectStep R d (a, st)) =
     (if IsZero R (RelayLogPosition st)
      then RecordError_first (emptyRelayPosErrorRecorder d) (emptyRelayPosError a)
      else emptyRelayPosErrorRecorder d)"
  by (simp add: detectStep_def Let_def)

lemma detect_fold_gtid:
  "isGTIDBased (foldl (detectStep R) d rsm) =
     (isGTIDBased d \<or> (\<exists>(a, st) \<in> set rsm. IsMysql56GTIDSet R (RelayLogPosition st)))"
  by (induction rsm arbitrary: d) (auto simp: detectStep_gtid)

lemma detect_fold_nongtid:
  "isNonGTIDBased (foldl (detectStep R) d rsm) =
     (isNonGTIDBased d \<or> (\<exists>(a, st) \<in> set rsm. \<not> IsMysql56GTIDSet R (RelayLogPosition st)))"
  by (induction rsm arbitrary: d) (auto simp: detectStep_nongtid)

lemma detect_fold_empty:
  "emptyRelayPosErrorRecorder (foldl (detectStep R) d rsm) =
     (case emptyRelayPosErrorRecorder d of
        Some e \<Rightarrow> Some e
      | None \<Rightarrow> (case filter (\<lambda>(a, st). IsZero R (RelayLogPosition st)) rsm of
                   [] \<Rightarrow> None
                 | (a, st) # _ \<Rightarrow> Some (emptyRelayPosError a)))"
  by (induction rsm arbitrary: d)
     (auto simp: detectStep_empty RecordError_first_def split: option.splits list.splits)

lemma detect_fold_empty_None:
  "(emptyRelayPosErrorRecorder (foldl (detectStep R) d rsm) = None) =
     (emptyRelayPosErrorRecorder d = None \<and> \<not> (\<exists>(a, st) \<in> set rsm. IsZero R (RelayLogPosition st)))"
  by (induction rsm arbitrary: d)
     (auto simp: detectStep_empty RecordError_first_def split: option.splits if_splits)

lemma detect_gtid:
  "distinct (map fst statuses) \<Longrightarrow>
   isGTIDBased (detect R (buildReplicationStatusMap R statuses)) =
     (\<exists>(alias, statuspb) \<in> set statuses. IsMysql56GTIDSet R (relayPos R statuspb))"
  by (simp add: detect_def detect_fold_gtid buildReplicationStatusMap_map case_prod_beta)

lemma detect_nongtid:
  "distinct (map fst statuses) \<Longrightarrow>
   isNonGTIDBased (detect R (buildReplicationStatusMap R statuses)) =
     (\<exists>(alias, statuspb) \<in> set statuses. \<not> IsMysql56GTIDSet R (relayPos R statuspb))"
  by (simp add: detect_def detect_fold_nongtid buildReplicationStatusMap_map case_prod_beta)

lemma filter_hd_mem: "filter P xs = y # ys \<Longrightarrow> y \<in> set xs \<and> P y"
  by (metis filter_eq_ConsD in_set_conv_decomp)

lemma detect_empty_none:
  "distinct (map fst statuses) \<Longrightarrow>
   (emptyRelayPosErrorRecorder (detect R (buildReplicationStatusMap R statuses)) = None) =
     (\<not> (\<exists>(alias, statuspb) \<in> set statuses. IsZero R (relayPos R statuspb)))"
  by (simp add: detect_def detect_fold_empty_None buildReplicationStatusMap_map case_prod_beta)

lemma detect_empty_some:
  assumes "distinct (map fst statuses)"
      and "emptyRelayPosErrorRecorder (detect R (buildReplicationStatusMap R statuses)) = Some err"
  shows "\<exists>alias statuspb. (alias, statuspb) \<in> set statuses \<and> IsZero R (relayPos R statuspb)
            \<and> err = emptyRelayPosError alias"
proof -
  let ?rsm = "map (\<lambda>(alias, statuspb). (alias, ProtoToReplicationStatus R (After statuspb))) statuses"
  from assms obtain a st rest where
    f: "filter (\<lambda>(a, st). IsZero R (RelayLogPosition st)) ?rsm = (a, st) # rest"
    and e: "err = emptyRelayPosError a"
    by (auto simp: detect_def detect_fold_empty buildReplicationStatusMap_map split: list.splits)
  from filter_hd_mem [OF f] have "(a, st) \<in> set ?rsm" and z: "IsZero R (RelayLogPosition st)"
    by auto
  then obtain statuspb where "(a, statuspb) \<in> set statuses"
    and "st = ProtoToReplicationStatus R (After statuspb)"
    by auto
  with z e show ?thesis by blast
qed

lemma storePrimaryPositions_lookup:
  "storePrimaryPositions R pm m0 = Inr m \<Longrightarrow> distinct (map fst pm) \<Longrightarrow>
   map_of m alias =
     (case map_of pm alias of
        Some ps \<Rightarrow> (case DecodePosition R (PrimaryStatus_Position ps) of
                      Inr p \<Rightarrow> Some p | Inl e \<Rightarrow> None)
      | None \<Rightarrow> map_of m0 alias)"
proof (induction pm arbitrary: m0)
  case Nil
  then show ?case by simp
next
  case (Cons x pm)
  obtain a ps where x: "x = (a, ps)" by (cases x)
  from Cons.prems obtain p where p: "DecodePosition R (PrimaryStatus_Position ps) = Inr p"
    and rest: "storePrimaryPositions R pm (AList.update a p m0) = Inr m"
    by (auto simp: x split: sum.splits)
  have d: "distinct (map fst pm)" and fresh: "a \<notin> fst ` set pm"
    using Cons.prems by (auto simp: x)
  from fresh have none: "map_of pm a = None" by (simp add: map_of_eq_None_iff)
  show ?case
    using Cons.IH [OF rest d] p none by (simp add: x update_conv' split: option.splits)
qed

lemma storePrimaryPositions_Inl:
  "storePrimaryPositions R pm m0 = Inl e \<Longrightarrow>
   \<exists>alias ps err. (alias, ps) \<in> set pm \<and> DecodePosition R (PrimaryStatus_Position ps) = Inl err
      \<and> e = decodeError alias err"
proof (induction pm arbitrary: m0)
  case Nil
  then show ?case by simp
next
  case (Cons x pm)
  obtain a ps where x: "x = (a, ps)" by (cases x)
  show ?case
  proof (cases "DecodePosition R (PrimaryStatus_Position ps)")
    case (Inl err)
    with Cons.prems show ?thesis by (auto simp: x)
  next
    case (Inr p)
    with Cons.prems have "storePrimaryPositions R pm (AList.update a p m0) = Inl e"
      by (simp add: x)
    from Cons.IH [OF this] show ?thesis by auto
  qed
qed

lemma storePrimaryPositions_Inr:
  "\<forall>(alias, ps) \<in> set pm. \<exists>p. DecodePosition R (PrimaryStatus_Position ps) = Inr p \<Longrightarrow>
   \<exists>m. storePrimaryPositions R pm m0 = Inr m"
  by (induction pm arbitrary: m0) (auto split: sum.splits)

lemma map_of_storePositions:
  "distinct (map fst statuses) \<Longrightarrow>
   map_of (storePositions g (buildReplicationStatusMap R statuses)) alias =
     map_option (\<lambda>statuspb. if g then relayPos R statuspb else plainPos R statuspb)
       (map_of statuses alias)"
proof -
  assume d: "distinct (map fst statuses)"
  let ?rsm = "map (\<lambda>(alias, statuspb). (alias, ProtoToReplicationStatus R (After statuspb))) statuses"
  have d': "distinct (map fst ?rsm)" using d by (simp add: comp_def case_prod_beta)
  have "storePositions g (buildReplicationStatusMap R statuses) =
        map (\<lambda>(alias, statuspb). (alias, if g then relayPos R statuspb else plainPos R statuspb)) statuses"
    by (simp add: buildReplicationStatusMap_map [OF d] storePositions_map [OF d'] case_prod_beta)
  then show ?thesis by (simp add: map_of_map)
qed

subsection \<open>The position map of a successful call\<close>

text \<open>
  Claim C6. When \<open>FindPositionsOfAllCandidates\<close> succeeds, the boolean it returns is true
  exactly when the relay log position of some tablet of the status map is set-based
  (MySQL 5.6 GTID); every tablet of the primary status map is mapped to its decoded
  executed position, whether or not it is in the status map as well; every other tablet
  of the status map is mapped to its relay log position when the boolean is true and to
  its replication position otherwise; and the map has no other entry. The status maps
  are Go maps, so their keys are distinct.
\<close>

theorem FindPositionsOfAllCandidates_positions:
  assumes ds: "distinct (map fst statuses)"
      and dp: "distinct (map fst primaries)"
      and ok: "FindPositionsOfAllCandidates R statuses primaries = Inr (positionMap, gtidBased)"
  shows "gtidBased = (\<exists>(alias, statuspb) \<in> set statuses. IsMysql56GTIDSet R (relayPos R statuspb))
       \<and> (\<forall>alias primaryStatus. map_of primaries alias = Some primaryStatus \<longrightarrow>
             (\<exists>p. DecodePosition R (PrimaryStatus_Position primaryStatus) = Inr p
                  \<and> map_of positionMap alias = Some p))
       \<and> (\<forall>alias statuspb. map_of statuses alias = Some statuspb \<longrightarrow>
             map_of primaries alias = None \<longrightarrow>
             map_of positionMap alias =
               Some (if gtidBased then relayPos R statuspb else plainPos R statuspb))
       \<and> (\<forall>alias. map_of statuses alias = None \<longrightarrow> map_of primaries alias = None \<longrightarrow>
             map_of positionMap alias = None)"
proof -
  let ?rsm = "buildReplicationStatusMap R statuses"
  let ?d = "detect R ?rsm"
  from ok have g: "gtidBased = isGTIDBased ?d"
    and st: "storePrimaryPositions R primaries (storePositions (isGTIDBased ?d) ?rsm) = Inr positionMap"
    by (auto simp: FindPositionsOfAllCandidates_def Let_def HasErrors_first_def Error_first_def
             split: if_splits sum.splits option.splits)
  have lookup: "map_of positionMap a =
     (case map_of primaries a of
        Some ps \<Rightarrow> (case DecodePosition R (PrimaryStatus_Position ps) of
                      Inr p \<Rightarrow> Some p | Inl e \<Rightarrow> None)
      | None \<Rightarrow> map_option (\<lambda>statuspb. if gtidBased then relayPos R statuspb else plainPos R statuspb)
                  (map_of statuses a))" for a
    using storePrimaryPositions_lookup [OF st dp, of a] map_of_storePositions [OF ds, of gtidBased R a]
    by (simp add: g split: option.splits)
  have dec: "\<exists>p. DecodePosition R (PrimaryStatus_Position ps) = Inr p"
    if "map_of primaries a = Some ps" for a ps
  proof (cases "DecodePosition R (PrimaryStatus_Position ps)")
    case (Inl e)
    from that have "(a, ps) \<in> set primaries" by (rule map_of_SomeD)
    then have "\<exists>e. storePrimaryPositions R primaries m0 = Inl e" for m0
      using Inl by (induction primaries arbitrary: m0) (auto split: sum.splits)
    with st show ?thesis by (metis sum.distinct(1))
  next
    case (Inr p)
    then show ?thesis by blast
  qed
  have c1: "gtidBased = (\<exists>(alias, statuspb) \<in> set statuses. IsMysql56GTIDSet R (relayPos R statuspb))"
    using g detect_gtid [OF ds] by simp
  have c2: "\<forall>alias primaryStatus. map_of primaries alias = Some primaryStatus \<longrightarrow>
             (\<exists>p. DecodePosition R (PrimaryStatus_Position primaryStatus) = Inr p
                  \<and> map_of positionMap alias = Some p)"
    using lookup dec by fastforce
  have c3: "\<forall>alias statuspb. map_of statuses alias = Some statuspb \<longrightarrow>
             map_of primaries alias = None \<longrightarrow>
             map_of positionMap alias =
               Some (if gtidBased then relayPos R statuspb else plainPos R statuspb)"
    using lookup by simp
  have c4: "\<forall>alias. map_of statuses alias = None \<longrightarrow> map_of primaries alias = None \<longrightarrow>
             map_of positionMap alias = None"
    using lookup by simp
  from c1 c2 c3 c4 show ?thesis by blast
qed

text \<open>
  On the double: \<open>a\<close> is only in the status map, \<open>b\<close> is in both maps and \<open>c\<close> only in
  the primary status map.
\<close>

theorem FindPositionsOfAllCandidates_positions_witness:
  "\<exists>positionMap.
     FindPositionsOfAllCandidates stubReplication
       [(''a'', stopped ''Mu:1-5'' ''Mu:1-7''), (''b'', stopped ''Mu:1-4'' ''Mu:1-9'')]
       [(''b'', \<lparr>PrimaryStatus_Position = ''Mu:1-6'', FilePosition = []\<rparr>),
        (''c'', \<lparr>PrimaryStatus_Position = ''Mu:1-8'', FilePosition = []\<rparr>)]
     = Inr (positionMap, True)
     \<and> map_of positionMap ''a'' = Some (SetBased ''u:1-7'')
     \<and> map_of positionMap ''b'' = Some (SetBased ''u:1-6'')
     \<and> map_of positionMap ''c'' = Some (SetBased ''u:1-8'')
     \<and> map_of positionMap ''z'' = None"
proof -
  let ?sm = "[(''a'', stopped ''Mu:1-5'' ''Mu:1-7''), (''b'', stopped ''Mu:1-4'' ''Mu:1-9'')]"
  let ?pm = "[(''b'', \<lparr>PrimaryStatus_Position = ''Mu:1-6'', FilePosition = []\<rparr>),
              (''c'', \<lparr>PrimaryStatus_Position = ''Mu:1-8'', FilePosition = []\<rparr>)]"
  let ?m = "[(''a'', SetBased ''u:1-7''), (''b'', SetBased ''u:1-6''), (''c'', SetBased ''u:1-8'')]"
  have ds: "distinct (map fst ?sm)" and dp: "distinct (map fst ?pm)" by simp_all
  have ok: "FindPositionsOfAllCandidates stubReplication ?sm ?pm = Inr (?m, True)"
    by (simp add: resolver_defs stub_defs)
  from FindPositionsOfAllCandidates_positions [OF ds dp ok]
  have "map_of ?m ''a'' = Some (SetBased ''u:1-7'')
      \<and> map_of ?m ''b'' = Some (SetBased ''u:1-6'')
      \<and> map_of ?m ''c'' = Some (SetBased ''u:1-8'')
      \<and> map_of ?m ''z'' = None"
    by (simp add: stub_defs)
  with ok show ?thesis by blast
qed

subsection \<open>Mixed representations\<close>

text \<open>
  Claim C7. When the relay log position of at least one tablet is set-based and that of
  at least one tablet is not, \<open>FindPositionsOfAllCandidates\<close> returns an error and no
  position map: the error about the mix of relay logs, or the error recorded for a tablet
  without relay log position, which is checked first.
\<close>

theorem FindPositionsOfAllCandidates_mixed:
  assumes ds: "distinct (map fst statuses)"
      and g: "\<exists>(alias, statuspb) \<in> set statuses. IsMysql56GTIDSet R (relayPos R statuspb)"
      and n: "\<exists>(alias, statuspb) \<in> set statuses. \<not> IsMysql56GTIDSet R (relayPos R statuspb)"
  shows "\<exists>err. FindPositionsOfAllCandidates R statuses primaries = Inl err
           \<and> (err = mixedError \<or> (\<exists>alias \<in> keys statuses. err = emptyRelayPosError alias))"
proof -
  let ?d = "detect R (buildReplicationStatusMap R statuses)"
  have G: "isGTIDBased ?d" using g by (simp add: detect_gtid [OF ds])
  have N: "isNonGTIDBased ?d" using n by (simp add: detect_nongtid [OF ds])
  show ?thesis
  proof (cases "emptyRelayPosErrorRecorder ?d")
    case None
    with G N show ?thesis
      by (simp add: FindPositionsOfAllCandidates_def Let_def HasErrors_first_def)
  next
    case (Some err)
    from detect_empty_some [OF ds Some] obtain a statuspb where
      "(a, statuspb) \<in> set statuses" and "err = emptyRelayPosError a" by blast
    then have "\<exists>alias \<in> keys statuses. err = emptyRelayPosError alias"
      by (force simp: keys_def)
    with G Some show ?thesis
      by (simp add: FindPositionsOfAllCandidates_def Let_def HasErrors_first_def Error_first_def)
  qed
qed

text \<open>On the double: one tablet with a set-based and one with an offset-based relay log.\<close>

theorem FindPositionsOfAllCandidates_mixed_witness:
  "distinct (map fst [(''a'', stopped ''Mu:1-5'' ''Mu:1-7''), (''b'', stopped ''Fbin.1:40'' ''Fbin.1:90'')])
   \<and> (\<exists>(alias, statuspb) \<in> set [(''a'', stopped ''Mu:1-5'' ''Mu:1-7''), (''b'', stopped ''Fbin.1:40'' ''Fbin.1:90'')].
         IsMysql56GTIDSet stubReplication (relayPos stubReplication statuspb))
   \<and> (\<exists>(alias, statuspb) \<in> set [(''a'', stopped ''Mu:1-5'' ''Mu:1-7''), (''b'', stopped ''Fbin.1:40'' ''Fbin.1:90'')].
         \<not> IsMysql56GTIDSet stubReplication (relayPos stubReplication statuspb))
   \<and> (\<exists>err. FindPositionsOfAllCandidates stubReplication
        [(''a'', stopped ''Mu:1-5'' ''Mu:1-7''), (''b'', stopped ''Fbin.1:40'' ''Fbin.1:90'')] []
      = Inl err)"
proof -
  let ?sm = "[(''a'', stopped ''Mu:1-5'' ''Mu:1-7''), (''b'', stopped ''Fbin.1:40'' ''Fbin.1:90'')]"
  have d: "distinct (map fst ?sm)" by simp
  have g: "\<exists>(alias, statuspb) \<in> set ?sm.
             IsMysql56GTIDSet stubReplication (relayPos stubReplication statuspb)"
    by (simp add: stub_defs)
  have n: "\<exists>(alias, statuspb) \<in> set ?sm.
             \<not> IsMysql56GTIDSet stubReplication (relayPos stubReplication statuspb)"
    by (simp add: stub_defs)
  from FindPositionsOfAllCandidates_mixed [OF d g n, of "[]"]
  have "\<exists>err. FindPositionsOfAllCandidates stubReplication ?sm [] = Inl err" by blast
  with d g n show ?thesis by blast
qed

subsection \<open>Tablets without relay log position\<close>

lemma FindPositionsOfAllCandidates_offset_based:
  assumes ds: "distinct (map fst statuses)"
      and n: "\<not> (\<exists>(alias, statuspb) \<in> set statuses. IsMysql56GTIDSet R (relayPos R statuspb))"
  shows "FindPositionsOfAllCandidates R statuses primaries =
           (case storePrimaryPositions R primaries
                   (map (\<lambda>(alias, statuspb). (alias, plainPos R statuspb)) statuses) of
              Inl err \<Rightarrow> Inl err
            | Inr positionMap \<Rightarrow> Inr (positionMap, False))"
proof -
  let ?d = "detect R (buildReplicationStatusMap R statuses)"
  from n have N: "\<not> isGTIDBased ?d" by (simp add: detect_gtid [OF ds])
  have d': "distinct (map fst (map (\<lambda>(alias, statuspb). (alias, ProtoToReplicationStatus R (After statuspb))) statuses))"
    using ds by (simp add: comp_def case_prod_beta)
  have "storePositions False (buildReplicationStatusMap R statuses) =
        map (\<lambda>(alias, statuspb). (alias, plainPos R statuspb)) statuses"
    by (simp add: buildReplicationStatusMap_map [OF ds] storePositions_map [OF d'] case_prod_beta)
  with N show ?thesis
    by (simp add: FindPositionsOfAllCandidates_def Let_def split: sum.splits)
qed

text \<open>
  Claim C8. When the relay log position of some tablet is set-based and that of some
  tablet is zero, \<open>FindPositionsOfAllCandidates\<close> returns the error recorded for a tablet
  with a zero relay log position. When no relay log position is set-based, the zero
  positions play no role: the only error the function can return is that of a primary
  status whose position does not decode, and when all of them decode it succeeds, returns
  \<open>False\<close> and maps every tablet of the status map that is not a primary to its
  replication position.
\<close>

theorem FindPositionsOfAllCandidates_zero_relay:
  assumes ds: "distinct (map fst statuses)"
      and dp: "distinct (map fst primaries)"
  shows "((\<exists>(alias, statuspb) \<in> set statuses. IsMysql56GTIDSet R (relayPos R statuspb)) \<longrightarrow>
          (\<exists>(alias, statuspb) \<in> set statuses. IsZero R (relayPos R statuspb)) \<longrightarrow>
          (\<exists>alias statuspb. (alias, statuspb) \<in> set statuses \<and> IsZero R (relayPos R statuspb)
             \<and> FindPositionsOfAllCandidates R statuses primaries = Inl (emptyRelayPosError alias)))
       \<and> (\<not> (\<exists>(alias, statuspb) \<in> set statuses. IsMysql56GTIDSet R (relayPos R statuspb)) \<longrightarrow>
            (\<forall>err. FindPositionsOfAllCandidates R statuses primaries = Inl err \<longrightarrow>
               (\<exists>alias primaryStatus e. (alias, primaryStatus) \<in> set primaries
                  \<and> DecodePosition R (PrimaryStatus_Position primaryStatus) = Inl e
                  \<and> err = decodeError alias e))
          \<and> ((\<forall>(alias, primaryStatus) \<in> set primaries.
                  \<exists>p. DecodePosition R (PrimaryStatus_Position primaryStatus) = Inr p) \<longrightarrow>
               (\<exists>positionMap.
                  FindPositionsOfAllCandidates R statuses primaries = Inr (positionMap, False)
                  \<and> (\<forall>alias statuspb. map_of statuses alias = Some statuspb \<longrightarrow>
                        map_of primaries alias = None \<longrightarrow>
                        map_of positionMap alias = Some (plainPos R statuspb)))))"
proof (intro conjI impI allI)
  let ?d = "detect R (buildReplicationStatusMap R statuses)"
  let ?plain = "map (\<lambda>(alias, statuspb). (alias, plainPos R statuspb)) statuses"
  {
    assume g: "\<exists>(alias, statuspb) \<in> set statuses. IsMysql56GTIDSet R (relayPos R statuspb)"
       and z: "\<exists>(alias, statuspb) \<in> set statuses. IsZero R (relayPos R statuspb)"
    have G: "isGTIDBased ?d" using g by (simp add: detect_gtid [OF ds])
    from z have "emptyRelayPosErrorRecorder ?d \<noteq> None" by (simp add: detect_empty_none [OF ds])
    then obtain err where e: "emptyRelayPosErrorRecorder ?d = Some err" by blast
    from detect_empty_some [OF ds e] obtain a statuspb where
      "(a, statuspb) \<in> set statuses" "IsZero R (relayPos R statuspb)" "err = emptyRelayPosError a"
      by blast
    moreover from G e have "FindPositionsOfAllCandidates R statuses primaries = Inl err"
      by (simp add: FindPositionsOfAllCandidates_def Let_def HasErrors_first_def Error_first_def)
    ultimately show "\<exists>alias statuspb. (alias, statuspb) \<in> set statuses \<and> IsZero R (relayPos R statuspb)
             \<and> FindPositionsOfAllCandidates R statuses primaries = Inl (emptyRelayPosError alias)"
      by blast
  }
  assume n: "\<not> (\<exists>(alias, statuspb) \<in> set statuses. IsMysql56GTIDSet R (relayPos R statuspb))"
  note eq = FindPositionsOfAllCandidates_offset_based [OF ds n, of primaries]
  {
    fix err
    assume "FindPositionsOfAllCandidates R statuses primaries = Inl err"
    with eq have "storePrimaryPositions R primaries ?plain = Inl err"
      by (simp split: sum.splits)
    from storePrimaryPositions_Inl [OF this]
    show "\<exists>alias primaryStatus e. (alias, primaryStatus) \<in> set primaries
                  \<and> DecodePosition R (PrimaryStatus_Position primaryStatus) = Inl e
                  \<and> err = decodeError alias e" .
  }
  assume "\<forall>(alias, primaryStatus) \<in> set primaries.
            \<exists>p. DecodePosition R (PrimaryStatus_Position primaryStatus) = Inr p"
  from storePrimaryPositions_Inr [OF this, of ?plain] obtain positionMap where
    st: "storePrimaryPositions R primaries ?plain = Inr positionMap" by blast
  with eq have ok: "FindPositionsOfAllCandidates R statuses primaries = Inr (positionMap, False)"
    by simp
  have "map_of positionMap a = Some (plainPos R statuspb)"
    if "map_of statuses a = Some statuspb" and "map_of primaries a = None" for a statuspb
    using storePrimaryPositions_lookup [OF st dp, of a] that by (simp add: map_of_map)
  with ok show "\<exists>positionMap.
                  FindPositionsOfAllCandidates R statuses primaries = Inr (positionMap, False)
                  \<and> (\<forall>alias statuspb. map_of statuses alias = Some statuspb \<longrightarrow>
                        map_of primaries alias = None \<longrightarrow>
                        map_of positionMap alias = Some (plainPos R statuspb))"
    by blast
qed

text \<open>
  On the double, the two cases of the specification: three set-based relay logs and one
  empty one; offset-based positions only, one relay log empty.
\<close>

theorem FindPositionsOfAllCandidates_zero_relay_witness:
  "(\<exists>alias. FindPositionsOfAllCandidates stubReplication
       [(''a'', stopped ''Mu:1-5'' ''Mu:1-7''), (''b'', stopped ''Mu:1-5'' ''Mu:1-9''),
        (''c'', stopped ''Mu:1-5'' ''Mu:1-8''), (''d'', stopped ''Mu:1-5'' [])] []
     = Inl (emptyRelayPosError alias))
   \<and> FindPositionsOfAllCandidates stubReplication
       [(''a'', stopped ''Fbin.1:40'' ''Fbin.1:90''), (''b'', stopped ''Fbin.1:30'' [])] []
     = Inr ([(''a'', OffsetBased ''bin.1:40''), (''b'', OffsetBased ''bin.1:30'')], False)"
proof -
  let ?g = "[(''a'', stopped ''Mu:1-5'' ''Mu:1-7''), (''b'', stopped ''Mu:1-5'' ''Mu:1-9''),
        (''c'', stopped ''Mu:1-5'' ''Mu:1-8''), (''d'', stopped ''Mu:1-5'' [])]"
  let ?f = "[(''a'', stopped ''Fbin.1:40'' ''Fbin.1:90''), (''b'', stopped ''Fbin.1:30'' [])]"
  have dg: "distinct (map fst ?g)" and df: "distinct (map fst ?f)" by simp_all
  have dn: "distinct (map fst ([] :: (string \<times> PrimaryStatus) list))" by simp
  have g: "\<exists>(alias, statuspb) \<in> set ?g. IsMysql56GTIDSet stubReplication (relayPos stubReplication statuspb)"
    by (simp add: stub_defs)
  have z: "\<exists>(alias, statuspb) \<in> set ?g. IsZero stubReplication (relayPos stubReplication statuspb)"
    by (simp add: stub_defs)
  have n: "\<not> (\<exists>(alias, statuspb) \<in> set ?f. IsMysql56GTIDSet stubReplication (relayPos stubReplication statuspb))"
    by (simp add: stub_defs)
  from FindPositionsOfAllCandidates_zero_relay [OF dg dn, where R = stubReplication] g z
  have 1: "\<exists>alias. FindPositionsOfAllCandidates stubReplication ?g [] = Inl (emptyRelayPosError alias)"
    by blast
  have e: "FindPositionsOfAllCandidates stubReplication ?f [] =
           Inr ([(''a'', OffsetBased ''bin.1:40''), (''b'', OffsetBased ''bin.1:30'')], False)"
    by (simp add: resolver_defs stub_defs)
  from FindPositionsOfAllCandidates_zero_relay [OF df dn, where R = stubReplication] n
  obtain positionMap where
    ok: "FindPositionsOfAllCandidates stubReplication ?f [] = Inr (positionMap, False)"
    and plain: "\<And>a statuspb. map_of ?f a = Some statuspb \<Longrightarrow>
                  map_of positionMap a = Some (plainPos stubReplication statuspb)"
    by auto
  have "map_of ?f ''b'' = Some (stopped ''Fbin.1:30'' [])" by simp
  from plain [OF this] have "map_of positionMap ''b'' = Some (OffsetBased ''bin.1:30'')"
    by (simp add: stub_defs)
  with ok e have 2: "FindPositionsOfAllCandidates stubReplication ?f [] =
           Inr ([(''a'', OffsetBased ''bin.1:40''), (''b'', OffsetBased ''bin.1:30'')], False)"
    by simp
  from 1 2 show ?thesis by blast
qed

section \<open>Properties of the task group\<close>

lemma receive_fields:
  "responseCounter (receive st msg) = Suc (responseCounter st)"
  "flaggedOutstanding (receive st msg) = flaggedOutstanding st - (if MustWaitFor msg then 1 else 0)"
  "Errors (recorder (receive st msg)) =
     Errors (recorder st) @ (case Err msg of None \<Rightarrow> [] | Some e \<Rightarrow> [e])"
  by (auto simp: receive_def Let_def RecordError_all_def split: option.splits)

lemma foldl_receive_fields:
  "responseCounter (foldl receive st msgs) = responseCounter st + length msgs"
  "flaggedOutstanding (foldl receive st msgs) = flaggedOutstanding st - int (flagged msgs)"
  "Errors (recorder (foldl receive st msgs)) = Errors (recorder st) @ List.map_filter Err msgs"
  by (induction msgs arbitrary: st)
     (auto simp: receive_fields flagged_def split: option.splits)

lemma waitLoop_Some:
  "waitLoop eg st msgs = Some st' \<Longrightarrow>
   \<exists>k \<le> length msgs. st' = foldl receive st (take k msgs) \<and> mayReturn eg st'"
proof (induction msgs arbitrary: st)
  case Nil
  then show ?case by (auto split: if_splits)
next
  case (Cons msg msgs)
  show ?case
  proof (cases "mayReturn eg st")
    case True
    with Cons.prems have "st' = st" by simp
    with True show ?thesis by (intro exI [of _ 0]) simp
  next
    case False
    with Cons.prems have "waitLoop eg (receive st msg) msgs = Some st'" by simp
    from Cons.IH [OF this] obtain k where "k \<le> length msgs"
      and "st' = foldl receive (receive st msg) (take k msgs)" and "mayReturn eg st'" by blast
    then show ?thesis by (intro exI [of _ "Suc k"]) simp
  qed
qed

lemma waitLoop_returns:
  "mayReturn eg (foldl receive st msgs) \<Longrightarrow> \<exists>st'. waitLoop eg st msgs = Some st'"
  by (induction msgs arbitrary: st) auto

lemma Wait_Some:
  assumes "Wait eg msgs = Some (errRecorder, n)"
  shows "n \<le> length msgs"
    and "Errors errRecorder = List.map_filter Err (take n msgs)"
    and "NumErrorsToWaitFor eg \<le> int (flagged (take n msgs))"
proof -
  let ?st0 = "\<lparr>successCounter = 0, errCounter = 0, responseCounter = 0,
           flaggedOutstanding = NumErrorsToWaitFor eg, recorder = \<lparr>Errors = []\<rparr>\<rparr>"
  from assms obtain st' where l: "waitLoop eg ?st0 msgs = Some st'"
    and r: "errRecorder = recorder st'" and c: "n = responseCounter st'"
    by (auto simp: Wait_def)
  from waitLoop_Some [OF l] obtain k where k: "k \<le> length msgs"
    and st': "st' = foldl receive ?st0 (take k msgs)" and m: "mayReturn eg st'" by blast
  have nk: "n = k" using c k by (simp add: st' foldl_receive_fields)
  show "n \<le> length msgs" using nk k by simp
  show "Errors errRecorder = List.map_filter Err (take n msgs)"
    by (simp add: r st' nk foldl_receive_fields)
  show "NumErrorsToWaitFor eg \<le> int (flagged (take n msgs))"
    using m by (simp add: mayReturn_def st' nk foldl_receive_fields)
qed

lemma Wait_returns:
  assumes "NumErrorsToWaitFor eg \<le> int (flagged msgs)"
      and "NumGoroutines eg \<le> int (length msgs)"
  shows "\<exists>errRecorder n. Wait eg msgs = Some (errRecorder, n)"
proof -
  let ?st0 = "\<lparr>successCounter = 0, errCounter = 0, responseCounter = 0,
           flaggedOutstanding = NumErrorsToWaitFor eg, recorder = \<lparr>Errors = []\<rparr>\<rparr>"
  have "mayReturn eg (foldl receive ?st0 msgs)"
    using assms by (simp add: mayReturn_def foldl_receive_fields)
  from waitLoop_returns [OF this] show ?thesis by (auto simp: Wait_def)
qed

section \<open>Properties of the snapshot builder\<close>

subsection \<open>The tasks and the schedule\<close>

lemma set_map_filter:
  "set (List.map_filter f xs) = {y. \<exists>x \<in> set xs. f x = Some y}"
  by (induction xs) (auto split: option.splits)

lemma length_filter_keys:
  assumes "distinct (map fst tabletMap)"
  shows "length (filter (\<lambda>(alias, tabletInfo). alias |\<in>| ignoredTablets) tabletMap)
           = card (keys tabletMap \<inter> fset ignoredTablets)"
proof -
  let ?xs = "filter (\<lambda>alias. alias |\<in>| ignoredTablets) (map fst tabletMap)"
  have "length (filter (\<lambda>(alias, tabletInfo). alias |\<in>| ignoredTablets) tabletMap) = length ?xs"
    by (induction tabletMap) auto
  also have "\<dots> = card (set ?xs)"
  proof -
    from assms have "distinct ?xs" by (rule distinct_filter)
    then show ?thesis by (simp only: distinct_card)
  qed
  also have "set ?xs = keys tabletMap \<inter> fset ignoredTablets" by (auto simp: keys_def)
  finally show ?thesis .
qed

lemma length_goroutines:
  "length (filter (\<lambda>(alias, tabletInfo). alias |\<in>| ignoredTablets) tabletMap)
     + length (goroutines tabletMap ignoredTablets a) = length tabletMap"
proof -
  have "filter (\<lambda>(alias, tabletInfo). alias |\<notin>| ignoredTablets) tabletMap
        = filter (\<lambda>x. \<not> (case x of (alias, tabletInfo) \<Rightarrow> alias |\<in>| ignoredTablets)) tabletMap"
    by (rule filter_cong) auto
  then show ?thesis
    using sum_length_filter_compl [of "\<lambda>(alias, tabletInfo). alias |\<in>| ignoredTablets" tabletMap]
    by (simp add: goroutines_def)
qed

lemma goroutines_iff:
  "(alias, tabletInfo, m) \<in> set (goroutines tabletMap ignoredTablets a) \<longleftrightarrow>
     (alias, tabletInfo) \<in> set tabletMap \<and> alias |\<notin>| ignoredTablets \<and> m = (a = alias)"
  by (auto simp: goroutines_def)

lemma map_fst_goroutines:
  "map fst (goroutines tabletMap ignoredTablets a) =
     filter (\<lambda>alias. alias |\<notin>| ignoredTablets) (map fst tabletMap)"
  by (induction tabletMap) (auto simp: goroutines_def)

lemma distinct_goroutines:
  "distinct (map fst tabletMap) \<Longrightarrow> distinct (map fst (goroutines tabletMap ignoredTablets a))"
  by (simp add: map_fst_goroutines)

lemma scheduled_subset: "t \<in> set (scheduled completionOrder tasks) \<Longrightarrow> t \<in> set tasks"
  by (auto simp: scheduled_def set_map_filter dest: map_of_SomeD)



lemma scheduled_complete:
  assumes "distinct (map fst tasks)" and "fst ` set tasks \<subseteq> set completionOrder"
      and "t \<in> set tasks"
  shows "t \<in> set (scheduled completionOrder tasks)"
proof -
  obtain al tabletInfo m where t: "t = (al, tabletInfo, m)" by (cases t)
  from assms have "map_of tasks al = Some (tabletInfo, m)" by (simp add: t)
  moreover from assms have "al \<in> set completionOrder" by (force simp: t)
  ultimately show ?thesis by (force simp: scheduled_def set_map_filter t)
qed

lemma distinct_subset_length:
  "distinct xs \<Longrightarrow> set xs \<subseteq> set ys \<Longrightarrow> length xs \<le> length ys"
  by (metis card_length card_mono distinct_card List.finite_set le_trans)

lemma scheduled_filter_length:
  assumes d: "distinct (map fst tasks)" and c: "fst ` set tasks \<subseteq> set completionOrder"
  shows "length (filter P tasks) \<le> length (filter P (scheduled completionOrder tasks))"
proof (rule distinct_subset_length)
  from d have "distinct tasks" by (rule distinct_map [THEN iffD1, THEN conjunct1])
  then show "distinct (filter P tasks)" by simp
  show "set (filter P tasks) \<subseteq> set (filter P (scheduled completionOrder tasks))"
    using scheduled_complete [OF d c] by auto
qed

lemma MustWaitFor_sent: "MustWaitFor (sent tmc sq (alias, tabletInfo, m)) = m"
  by (simp add: sent_def fillStatus_def Let_def split: sum.splits)

text \<open>The message of a task does not depend on the snapshot it finds.\<close>

lemma report_fillStatus:
  "report (fillStatus tmc sq al tabletInfo m res) = sent tmc sq (al, tabletInfo, m)"
  by (simp add: sent_def fillStatus_def Let_def split: sum.splits)

lemma flagged_sent:
  "flagged (map (sent tmc sq) tasks) = length (filter (\<lambda>(alias, tabletInfo, m). m) tasks)"
  by (induction tasks) (auto simp: flagged_def MustWaitFor_sent)

lemma numGoRoutines_le:
  assumes "distinct (map fst tabletMap)"
  shows "numGoRoutines tabletMap ignoredTablets \<le> int (length (goroutines tabletMap ignoredTablets a))"
proof -
  have "card (keys tabletMap \<inter> fset ignoredTablets) \<le> card (fset ignoredTablets)"
    by (rule card_mono) auto
  then show ?thesis
    using length_goroutines [of ignoredTablets tabletMap a] length_filter_keys [OF assms, of ignoredTablets]
    by (simp add: numGoRoutines_def fcard.rep_eq)
qed

lemma numGoRoutines_eq:
  assumes "distinct (map fst tabletMap)" and "fset ignoredTablets \<subseteq> keys tabletMap"
  shows "numGoRoutines tabletMap ignoredTablets = int (length (goroutines tabletMap ignoredTablets a))"
proof -
  from assms(2) have "keys tabletMap \<inter> fset ignoredTablets = fset ignoredTablets" by auto
  then show ?thesis
    using length_goroutines [of ignoredTablets tabletMap a] length_filter_keys [OF assms(1), of ignoredTablets]
    by (simp add: numGoRoutines_def fcard.rep_eq)
qed

lemma issued_fillStatus_isRPC:
  "c \<in> set (issued (fillStatus tmc sq alias tabletInfo mustWaitFor res)) \<Longrightarrow> isRPC c"
  by (auto simp: fillStatus_def isRPC_def Let_def split: sum.splits if_splits)

lemma runTask_isRPC:
  "\<forall>c \<in> set (snd state). isRPC c \<Longrightarrow> \<forall>c \<in> set (snd (runTask tmc sq state t)). isRPC c"
  by (cases state; cases t) (auto simp: runTask_def Let_def dest: issued_fillStatus_isRPC)

lemma foldl_runTask_isRPC:
  "\<forall>c \<in> set (snd state). isRPC c \<Longrightarrow> \<forall>c \<in> set (snd (foldl (runTask tmc sq) state tasks)). isRPC c"
proof (induction tasks arbitrary: state)
  case Nil
  then show ?case by simp
next
  case (Cons t tasks)
  from runTask_isRPC [OF Cons.prems] have "\<forall>c \<in> set (snd (runTask tmc sq state t)). isRPC c" .
  from Cons.IH [OF this] show ?case by simp
qed

lemma runTasks_isRPC: "c \<in> set (snd (runTasks tmc sq tasks)) \<Longrightarrow> isRPC c"
  using foldl_runTask_isRPC [of "(emptySnapshot, [])" tmc sq tasks] by (simp add: runTasks_def)

lemma runTasks_no_haveRevoked:
  "runTasks tmc sq tasks = (res, calls) \<Longrightarrow> haveRevoked_called reachable allTablets \<notin> set calls"
  using runTasks_isRPC [of "haveRevoked_called reachable allTablets" tmc sq tasks]
  by (auto simp: isRPC_def)

lemma flagged_take_task:
  assumes "1 \<le> flagged (take n (map (sent tmc sq) tasks))"
  shows "\<exists>al tabletInfo. (al, tabletInfo, True) \<in> set (take n tasks)"
proof -
  have "flagged (take n (map (sent tmc sq) tasks))
        = length (filter (\<lambda>(al, tabletInfo, m). m) (take n tasks))"
    by (simp add: take_map flagged_sent)
  with assms have "filter (\<lambda>(al, tabletInfo, m). m) (take n tasks) \<noteq> []" by auto
  then obtain t where tin: "t \<in> set (take n tasks)"
    and tf: "case t of (al, tabletInfo, m) \<Rightarrow> m"
    unfolding filter_empty_conv by blast
  obtain al tabletInfo m where "t = (al, tabletInfo, m)" by (cases t)
  with tin tf have "(al, tabletInfo, True) \<in> set (take n tasks)" by simp
  then show ?thesis by blast
qed

lemma Err_in_map_filter: "msg \<in> set msgs \<Longrightarrow> Err msg = Some e \<Longrightarrow> e \<in> set (List.map_filter Err msgs)"
  by (auto simp: set_map_filter)







text \<open>
  The function returns whenever every started task finishes: the group is told of no
  more tasks than were started, and every flagged task reports.
\<close>

lemma Wait_builder_returns:
  assumes dk: "distinct (map fst tabletMap)"
      and c: "keys tabletMap - fset ignoredTablets \<subseteq> set completionOrder"
  shows "\<exists>errRecorder n.
           Wait (errgroup tabletMap ignoredTablets a waitForAllTablets)
             (map (sent tmc sq) (scheduled completionOrder (goroutines tabletMap ignoredTablets a)))
           = Some (errRecorder, n)"
proof -
  let ?gs = "goroutines tabletMap ignoredTablets a"
  let ?tasks = "scheduled completionOrder ?gs"
  let ?eg = "errgroup tabletMap ignoredTablets a waitForAllTablets"
  have dg: "distinct (map fst ?gs)" using dk by (rule distinct_goroutines)
  have cg: "fst ` set ?gs \<subseteq> set completionOrder"
    using c by (auto simp: goroutines_iff keys_def) force
  have "NumErrorsToWaitFor ?eg \<le> int (flagged (map (sent tmc sq) ?tasks))"
    using scheduled_filter_length [OF dg cg, of "\<lambda>(al, ti, m). m"]
    by (simp add: errgroup_def numErrorsToWaitFor_def flagged_sent)
  moreover have "NumGoroutines ?eg \<le> int (length (map (sent tmc sq) ?tasks))"
  proof -
    have "length ?gs \<le> length ?tasks"
      using scheduled_filter_length [OF dg cg, of "\<lambda>t. True"] by simp
    with numGoRoutines_le [OF dk, of ignoredTablets a] show ?thesis
      by (simp add: errgroup_def)
  qed
  ultimately show ?thesis by (rule Wait_returns)
qed

lemma stopReplicationAndBuildStatusMaps_returns:
  assumes "distinct (map fst tabletMap)"
      and "keys tabletMap - fset ignoredTablets \<subseteq> set completionOrder"
  shows "stopReplicationAndBuildStatusMaps tmc sq TabletAliasString haveRevoked
           tabletMap ignoredTablets tabletToWaitFor durability waitForAllTablets
           completionOrder late \<noteq> None"
proof -
  from Wait_builder_returns [OF assms] obtain errRecorder n where
    "Wait (errgroup tabletMap ignoredTablets
             (tabletAliasToWaitFor TabletAliasString tabletToWaitFor) waitForAllTablets)
       (map (sent tmc sq) (scheduled completionOrder
          (goroutines tabletMap ignoredTablets
             (tabletAliasToWaitFor TabletAliasString tabletToWaitFor))))
     = Some (errRecorder, n)"
    by blast
  then show ?thesis
    unfolding stopReplicationAndBuildStatusMaps_def
    by (simp add: Let_def split: prod.splits)
qed

subsection \<open>One task\<close>

text \<open>
  Claim C9. When the stop-replication call of a task fails with the "not a replica" SQL
  error, the task issues exactly that call and then the demotion call. If the demotion
  succeeds, the primary status it returns is stored under the alias in
  \<open>primaryStatusMap\<close>, the tablet is appended to \<open>reachableTablets\<close>, and the task reports
  success. If the demotion fails, the snapshot is left as it was, so the tablet is not
  added to \<open>reachableTablets\<close>, and the error the task reports is the demotion error
  wrapped by \<^verbatim>\<open>vterrors.Wrapf\<close> with the message of line 215 and, as its arguments, the
  alias and the demotion error.
\<close>

theorem fillStatus_not_replica:
  assumes stop: "StopReplicationAndGetStatus tmc (Tablet tabletInfo) = Inl err"
      and nr: "isNotReplica sq err"
  shows "issued (fillStatus tmc sq alias tabletInfo mustWaitForTablet res) =
           [StopReplicationAndGetStatus_called (Tablet tabletInfo), DemotePrimary_called (Tablet tabletInfo)]
       \<and> (\<forall>primaryStatus. DemotePrimary tmc (Tablet tabletInfo) = Inr primaryStatus \<longrightarrow>
            snapshot (fillStatus tmc sq alias tabletInfo mustWaitForTablet res) =
              res\<lparr>primaryStatusMap := AList.update alias primaryStatus (primaryStatusMap res),
                  reachableTablets := reachableTablets res @ [Tablet tabletInfo]\<rparr>
            \<and> map_of (primaryStatusMap (snapshot (fillStatus tmc sq alias tabletInfo mustWaitForTablet res))) alias
                = Some primaryStatus
            \<and> Err (report (fillStatus tmc sq alias tabletInfo mustWaitForTablet res)) = None)
       \<and> (\<forall>err'. DemotePrimary tmc (Tablet tabletInfo) = Inl err' \<longrightarrow>
            snapshot (fillStatus tmc sq alias tabletInfo mustWaitForTablet res) = res
            \<and> Err (report (fillStatus tmc sq alias tabletInfo mustWaitForTablet res))
                = Some (Wrapf err'
                          ''replica %v thinks it's primary but we failed to demote it: %v''
                          [ArgString alias, ArgError err']))"
  using stop nr by (simp add: fillStatus_def demoteError_def update_conv' split: sum.splits)

text \<open>On the double: tablet \<open>b\<close> is demoted, tablet \<open>d\<close> refuses the demotion.\<close>

theorem fillStatus_not_replica_witness:
  "fillStatus stubTmc stubSqlerror ''b'' (tabletNamed ''b'') False emptySnapshot =
     \<lparr>snapshot = emptySnapshot
        \<lparr>primaryStatusMap := [(''b'', \<lparr>PrimaryStatus_Position = ''Mu:1-9'', FilePosition = []\<rparr>)],
         reachableTablets := [Tablet (tabletNamed ''b'')]\<rparr>,
      issued = [StopReplicationAndGetStatus_called (Tablet (tabletNamed ''b'')),
                DemotePrimary_called (Tablet (tabletNamed ''b''))],
      report = \<lparr>Err = None, MustWaitFor = False\<rparr>\<rparr>
   \<and> fillStatus stubTmc stubSqlerror ''d'' (tabletNamed ''d'') False emptySnapshot =
     \<lparr>snapshot = emptySnapshot,
      issued = [StopReplicationAndGetStatus_called (Tablet (tabletNamed ''d'')),
                DemotePrimary_called (Tablet (tabletNamed ''d''))],
      report = \<lparr>Err = Some (Wrapf (External ''demote failed'')
                             ''replica %v thinks it's primary but we failed to demote it: %v''
                             [ArgString ''d'', ArgError (External ''demote failed'')]),
                MustWaitFor = False\<rparr>\<rparr>"
proof -
  have sb: "StopReplicationAndGetStatus stubTmc (Tablet (tabletNamed ''b'')) = Inl (External ''not a replica'')"
    and sd: "StopReplicationAndGetStatus stubTmc (Tablet (tabletNamed ''d'')) = Inl (External ''not a replica'')"
    and nr: "isNotReplica stubSqlerror (External ''not a replica'')"
    and db: "DemotePrimary stubTmc (Tablet (tabletNamed ''b''))
               = Inr \<lparr>PrimaryStatus_Position = ''Mu:1-9'', FilePosition = []\<rparr>"
    and dd: "DemotePrimary stubTmc (Tablet (tabletNamed ''d'')) = Inl (External ''demote failed'')"
    by (simp_all add: stub_defs isNotReplica_def)
  have mw: "MustWaitFor (report (fillStatus stubTmc stubSqlerror al ti False res)) = False" for al ti res
    by (simp add: fillStatus_def Let_def split: sum.splits)
  from fillStatus_not_replica [OF sb nr, of "''b''" False emptySnapshot] db
  have b: "fillStatus stubTmc stubSqlerror ''b'' (tabletNamed ''b'') False emptySnapshot =
     \<lparr>snapshot = emptySnapshot
        \<lparr>primaryStatusMap := [(''b'', \<lparr>PrimaryStatus_Position = ''Mu:1-9'', FilePosition = []\<rparr>)],
         reachableTablets := [Tablet (tabletNamed ''b'')]\<rparr>,
      issued = [StopReplicationAndGetStatus_called (Tablet (tabletNamed ''b'')),
                DemotePrimary_called (Tablet (tabletNamed ''b''))],
      report = \<lparr>Err = None, MustWaitFor = False\<rparr>\<rparr>"
    using mw [of "''b''" "tabletNamed ''b''" emptySnapshot]
    by (intro taskOutcome.equality concurrencyError.equality) (simp_all add: emptySnapshot_def)
  from fillStatus_not_replica [OF sd nr, of "''d''" False emptySnapshot] dd
  have d: "fillStatus stubTmc stubSqlerror ''d'' (tabletNamed ''d'') False emptySnapshot =
     \<lparr>snapshot = emptySnapshot,
      issued = [StopReplicationAndGetStatus_called (Tablet (tabletNamed ''d'')),
                DemotePrimary_called (Tablet (tabletNamed ''d''))],
      report = \<lparr>Err = Some (Wrapf (External ''demote failed'')
                             ''replica %v thinks it's primary but we failed to demote it: %v''
                             [ArgString ''d'', ArgError (External ''demote failed'')]),
                MustWaitFor = False\<rparr>\<rparr>"
    using mw [of "''d''" "tabletNamed ''d''" emptySnapshot]
    by (intro taskOutcome.equality concurrencyError.equality) simp_all
  from b d show ?thesis by simp
qed

subsection \<open>The decision after the task group has returned\<close>

text \<open>
  Claim C1. When the task group returns with at most one recorded error, the function
  returns the snapshot built by the tasks that have run so far, with a nil error, and the
  log of the call has no entry for the fencing check \<open>haveRevoked\<close>.
\<close>

theorem stopReplicationAndBuildStatusMaps_trivially_safe:
  assumes a: "aliasToWaitFor = tabletAliasToWaitFor TabletAliasString tabletToWaitFor"
      and t: "tasks = scheduled completionOrder (goroutines tabletMap ignoredTablets aliasToWaitFor)"
      and w: "Wait (errgroup tabletMap ignoredTablets aliasToWaitFor waitForAllTablets)
                (map (sent tmc sq) tasks) = Some (errRecorder, n)"
      and le: "length (Errors errRecorder) \<le> 1"
  shows "\<exists>res calls.
           stopReplicationAndBuildStatusMaps tmc sq TabletAliasString haveRevoked
             tabletMap ignoredTablets tabletToWaitFor durability waitForAllTablets completionOrder late
           = Some ((Some res, None), calls)
         \<and> (res, calls) = runTasks tmc sq (take (n + late) tasks)
         \<and> (\<forall>reachable allTablets. haveRevoked_called reachable allTablets \<notin> set calls)"
proof -
  obtain res calls where r: "runTasks tmc sq (take (n + late) tasks) = (res, calls)"
    by (cases "runTasks tmc sq (take (n + late) tasks)")
  have "stopReplicationAndBuildStatusMaps tmc sq TabletAliasString haveRevoked
          tabletMap ignoredTablets tabletToWaitFor durability waitForAllTablets completionOrder late
        = Some ((Some res, None), calls)"
    using w le r unfolding stopReplicationAndBuildStatusMaps_def a t by (simp add: Let_def)
  moreover have "\<forall>reachable allTablets. haveRevoked_called reachable allTablets \<notin> set calls"
    using runTasks_no_haveRevoked [OF r] by blast
  ultimately show ?thesis using r by auto
qed

text \<open>On the double: three tablets, the unreachable one answers first.\<close>

theorem stopReplicationAndBuildStatusMaps_trivially_safe_witness:
  "Wait (errgroup (cluster [''a'', ''b'', ''c'']) {||} (tabletAliasToWaitFor stubAliasString None) False)
     (map (sent stubTmc stubSqlerror)
        (scheduled [''c'', ''a'', ''b'']
           (goroutines (cluster [''a'', ''b'', ''c'']) {||} (tabletAliasToWaitFor stubAliasString None))))
     = Some (\<lparr>Errors = [statusError ''c'' (External ''deadline exceeded'')]\<rparr>, 3)
   \<and> (\<exists>res calls.
         stopReplicationAndBuildStatusMaps stubTmc stubSqlerror stubAliasString stubHaveRevoked
           (cluster [''a'', ''b'', ''c'']) {||} None () False [''c'', ''a'', ''b''] 0
         = Some ((Some res, None), calls)
       \<and> (\<forall>reachable allTablets. haveRevoked_called reachable allTablets \<notin> set calls))"
proof -
  have w: "Wait (errgroup (cluster [''a'', ''b'', ''c'']) {||} (tabletAliasToWaitFor stubAliasString None) False)
     (map (sent stubTmc stubSqlerror)
        (scheduled [''c'', ''a'', ''b'']
           (goroutines (cluster [''a'', ''b'', ''c'']) {||} (tabletAliasToWaitFor stubAliasString None))))
     = Some (\<lparr>Errors = [statusError ''c'' (External ''deadline exceeded'')]\<rparr>, 3)"
    by (simp add: builder_defs stub_defs)
  have le: "length (Errors \<lparr>Errors = [statusError ''c'' (External ''deadline exceeded'')]\<rparr>) \<le> 1"
    by simp
  from stopReplicationAndBuildStatusMaps_trivially_safe [OF refl refl w le, of stubHaveRevoked "()" 0]
  have "\<exists>res calls.
         stopReplicationAndBuildStatusMaps stubTmc stubSqlerror stubAliasString stubHaveRevoked
           (cluster [''a'', ''b'', ''c'']) {||} None () False [''c'', ''a'', ''b''] 0
         = Some ((Some res, None), calls)
       \<and> (\<forall>reachable allTablets. haveRevoked_called reachable allTablets \<notin> set calls)"
    by blast
  with w show ?thesis by blast
qed

text \<open>
  Claim C2. When the task group returns with two or more recorded errors and the fencing
  check does not hold for the tablets reached, the function consults the fencing check,
  returns no snapshot, and returns the error of the collector wrapped by
  \<^verbatim>\<open>vterrors.Wrapf\<close> with the message of line 299, that sufficient tablets could not be
  reached to guarantee safety, and the error of the collector as its argument. That much
  is the code of lines 296 to 300. The error of the collector is the first error recorded,
  which is the error of the first failing task in the order of arrival: this part rests on
  the collector as the specification describes it.
\<close>

theorem stopReplicationAndBuildStatusMaps_unsafe:
  assumes a: "aliasToWaitFor = tabletAliasToWaitFor TabletAliasString tabletToWaitFor"
      and t: "tasks = scheduled completionOrder (goroutines tabletMap ignoredTablets aliasToWaitFor)"
      and w: "Wait (errgroup tabletMap ignoredTablets aliasToWaitFor waitForAllTablets)
                (map (sent tmc sq) tasks) = Some (errRecorder, n)"
      and ge: "2 \<le> length (Errors errRecorder)"
      and r: "runTasks tmc sq (take (n + late) tasks) = (res, calls)"
      and nr: "\<not> haveRevoked durability (reachableTablets res)
                   (map (\<lambda>(alias, tabletInfo). Tablet tabletInfo) tabletMap)"
  shows "\<exists>first rest.
           Errors errRecorder = first # rest
         \<and> List.map_filter Err (take n (map (sent tmc sq) tasks)) = first # rest
         \<and> Error_all errRecorder = Some first
         \<and> stopReplicationAndBuildStatusMaps tmc sq TabletAliasString haveRevoked
             tabletMap ignoredTablets tabletToWaitFor durability waitForAllTablets completionOrder late
           = Some ((None,
                    Some (Wrapf first
                            ''could not reach sufficient tablets to guarantee safety: %v''
                            [ArgError first])),
                   calls @ [haveRevoked_called (reachableTablets res)
                              (map (\<lambda>(alias, tabletInfo). Tablet tabletInfo) tabletMap)])"
proof -
  from ge obtain first rest where e: "Errors errRecorder = first # rest"
    by (cases "Errors errRecorder") auto
  have "stopReplicationAndBuildStatusMaps tmc sq TabletAliasString haveRevoked
          tabletMap ignoredTablets tabletToWaitFor durability waitForAllTablets completionOrder late
        = Some ((None,
                 Some (Wrapf first
                         ''could not reach sufficient tablets to guarantee safety: %v''
                         [ArgError first])),
                calls @ [haveRevoked_called (reachableTablets res)
                           (map (\<lambda>(alias, tabletInfo). Tablet tabletInfo) tabletMap)])"
    using w ge r nr e unfolding stopReplicationAndBuildStatusMaps_def a t
    by (auto simp: Let_def Error_all_def safetyError_def)
  moreover have "List.map_filter Err (take n (map (sent tmc sq) tasks)) = first # rest"
    using Wait_Some(2) [OF w] e by simp
  moreover have "Error_all errRecorder = Some first"
    using e by (simp add: Error_all_def)
  ultimately show ?thesis using e by blast
qed

text \<open>On the double: two of three tablets fail and one tablet reached is no majority.\<close>

theorem stopReplicationAndBuildStatusMaps_unsafe_witness:
  "Wait (errgroup (cluster [''a'', ''c'', ''d'']) {||} (tabletAliasToWaitFor stubAliasString None) False)
     (map (sent stubTmc stubSqlerror)
        (scheduled [''c'', ''d'', ''a'']
           (goroutines (cluster [''a'', ''c'', ''d'']) {||} (tabletAliasToWaitFor stubAliasString None))))
     = Some (\<lparr>Errors = [statusError ''c'' (External ''deadline exceeded''),
                         demoteError ''d'' (External ''demote failed'')]\<rparr>, 3)
   \<and> (\<exists>calls.
         stopReplicationAndBuildStatusMaps stubTmc stubSqlerror stubAliasString stubHaveRevoked
           (cluster [''a'', ''c'', ''d'']) {||} None () False [''c'', ''d'', ''a''] 0
         = Some ((None,
                  Some (Wrapf
                          (Wrapf (External ''deadline exceeded'')
                             ''error when getting replication status for alias %v: %v''
                             [ArgString ''c'', ArgError (External ''deadline exceeded'')])
                          ''could not reach sufficient tablets to guarantee safety: %v''
                          [ArgError
                             (Wrapf (External ''deadline exceeded'')
                                ''error when getting replication status for alias %v: %v''
                                [ArgString ''c'', ArgError (External ''deadline exceeded'')])])),
                 calls))"
proof -
  let ?tasks = "scheduled [''c'', ''d'', ''a'']
           (goroutines (cluster [''a'', ''c'', ''d'']) {||} (tabletAliasToWaitFor stubAliasString None))"
  let ?rec = "\<lparr>Errors = [statusError ''c'' (External ''deadline exceeded''),
                         demoteError ''d'' (External ''demote failed'')]\<rparr>"
  have w: "Wait (errgroup (cluster [''a'', ''c'', ''d'']) {||} (tabletAliasToWaitFor stubAliasString None) False)
     (map (sent stubTmc stubSqlerror) ?tasks) = Some (?rec, 3)"
    by (simp add: builder_defs stub_defs)
  have ge: "2 \<le> length (Errors ?rec)" by simp
  have r: "runTasks stubTmc stubSqlerror (take (3 + 0) ?tasks) =
             (fst (runTasks stubTmc stubSqlerror (take (3 + 0) ?tasks)),
              snd (runTasks stubTmc stubSqlerror (take (3 + 0) ?tasks)))"
    by simp
  have nr: "\<not> stubHaveRevoked () (reachableTablets (fst (runTasks stubTmc stubSqlerror (take (3 + 0) ?tasks))))
                (map (\<lambda>(alias, tabletInfo). Tablet tabletInfo) (cluster [''a'', ''c'', ''d'']))"
    by (simp add: builder_defs stub_defs)
  from stopReplicationAndBuildStatusMaps_unsafe
         [where haveRevoked = stubHaveRevoked and durability = "()" and late = 0,
          OF refl refl w ge r nr]
  have "\<exists>calls.
         stopReplicationAndBuildStatusMaps stubTmc stubSqlerror stubAliasString stubHaveRevoked
           (cluster [''a'', ''c'', ''d'']) {||} None () False [''c'', ''d'', ''a''] 0
         = Some ((None,
                  Some (Wrapf
                          (Wrapf (External ''deadline exceeded'')
                             ''error when getting replication status for alias %v: %v''
                             [ArgString ''c'', ArgError (External ''deadline exceeded'')])
                          ''could not reach sufficient tablets to guarantee safety: %v''
                          [ArgError
                             (Wrapf (External ''deadline exceeded'')
                                ''error when getting replication status for alias %v: %v''
                                [ArgString ''c'', ArgError (External ''deadline exceeded'')])])),
                 calls)"
    by (auto simp: statusError_def)
  with w show ?thesis by blast
qed

subsection \<open>The tablet that must be waited for\<close>

text \<open>
  Claim C4. Let the tablet to wait for be a tablet of the map that is not ignored. Then
  whenever \<open>Wait\<close> returns, the message of that tablet is among the messages it has taken
  from the channel, whatever the threshold and the other tablets, and if that tablet
  reported an error, the error is in the collector. Moreover \<open>Wait\<close> does return once
  every started task has finished.
\<close>

theorem Wait_waits_for_flagged_tablet:
  assumes dk: "distinct (map fst tabletMap)"
      and tw: "tabletToWaitFor = Some waitAlias"
      and a: "aliasToWaitFor = tabletAliasToWaitFor TabletAliasString tabletToWaitFor"
      and m: "map_of tabletMap aliasToWaitFor = Some tabletInfo"
      and ni: "aliasToWaitFor |\<notin>| ignoredTablets"
      and t: "tasks = scheduled completionOrder (goroutines tabletMap ignoredTablets aliasToWaitFor)"
  shows "(\<forall>errRecorder n.
            Wait (errgroup tabletMap ignoredTablets aliasToWaitFor waitForAllTablets)
              (map (sent tmc sq) tasks) = Some (errRecorder, n) \<longrightarrow>
            (aliasToWaitFor, tabletInfo, True) \<in> set (take n tasks)
            \<and> (\<forall>e. Err (sent tmc sq (aliasToWaitFor, tabletInfo, True)) = Some e \<longrightarrow>
                   e \<in> set (Errors errRecorder)))
       \<and> (keys tabletMap - fset ignoredTablets \<subseteq> set completionOrder \<longrightarrow>
            Wait (errgroup tabletMap ignoredTablets aliasToWaitFor waitForAllTablets)
              (map (sent tmc sq) tasks) \<noteq> None)"
proof (intro conjI allI impI)
  let ?gs = "goroutines tabletMap ignoredTablets aliasToWaitFor"
  let ?eg = "errgroup tabletMap ignoredTablets aliasToWaitFor waitForAllTablets"
  from m have mem: "(aliasToWaitFor, tabletInfo) \<in> set tabletMap" by (rule map_of_SomeD)
  with ni have g: "(aliasToWaitFor, tabletInfo, True) \<in> set ?gs" by (simp add: goroutines_iff)
  have one: "1 \<le> NumErrorsToWaitFor ?eg"
  proof -
    from g have "(aliasToWaitFor, tabletInfo, True) \<in> set (filter (\<lambda>(al, ti, m). m) ?gs)" by simp
    then have "filter (\<lambda>(al, ti, m). m) ?gs \<noteq> []" by (metis empty_iff empty_set)
    then show ?thesis by (simp add: errgroup_def numErrorsToWaitFor_def Suc_le_eq)
  qed
  {
    fix errRecorder n
    assume w: "Wait ?eg (map (sent tmc sq) tasks) = Some (errRecorder, n)"
    from Wait_Some(3) [OF w] one have "1 \<le> flagged (take n (map (sent tmc sq) tasks))" by simp
    from flagged_take_task [OF this] obtain al ti where
      in_take: "(al, ti, True) \<in> set (take n tasks)" by blast
    then have "(al, ti, True) \<in> set tasks" by (rule in_set_takeD)
    then have "(al, ti, True) \<in> set ?gs" unfolding t by (rule scheduled_subset)
    then have "(al, ti) \<in> set tabletMap" and "aliasToWaitFor = al" by (simp_all add: goroutines_iff)
    with dk m have "al = aliasToWaitFor" and "ti = tabletInfo" by auto
    with in_take show "(aliasToWaitFor, tabletInfo, True) \<in> set (take n tasks)" by simp
    then have s: "sent tmc sq (aliasToWaitFor, tabletInfo, True) \<in> set (take n (map (sent tmc sq) tasks))"
      by (simp add: take_map)
    fix e
    assume "Err (sent tmc sq (aliasToWaitFor, tabletInfo, True)) = Some e"
    from Err_in_map_filter [OF s this] show "e \<in> set (Errors errRecorder)"
      by (simp add: Wait_Some(2) [OF w])
  }
  assume c: "keys tabletMap - fset ignoredTablets \<subseteq> set completionOrder"
  from Wait_builder_returns [OF dk c, of aliasToWaitFor waitForAllTablets tmc sq]
  show "Wait ?eg (map (sent tmc sq) tasks) \<noteq> None" by (auto simp: t)
qed

text \<open>
  On the double: the two required successes arrive before the message of the flagged
  tablet \<open>c\<close>, and \<open>Wait\<close> still takes the third message.
\<close>

theorem Wait_waits_for_flagged_tablet_witness:
  "Wait (errgroup (cluster [''a'', ''b'', ''c'']) {||} ''c'' False)
     (map (sent stubTmc stubSqlerror)
        (scheduled [''a'', ''b'', ''c''] (goroutines (cluster [''a'', ''b'', ''c'']) {||} ''c'')))
     = Some (\<lparr>Errors = [statusError ''c'' (External ''deadline exceeded'')]\<rparr>, 3)
   \<and> (''c'', tabletNamed ''c'', True)
       \<in> set (take 3 (scheduled [''a'', ''b'', ''c''] (goroutines (cluster [''a'', ''b'', ''c'']) {||} ''c'')))
   \<and> statusError ''c'' (External ''deadline exceeded'')
       \<in> set (Errors \<lparr>Errors = [statusError ''c'' (External ''deadline exceeded'')]\<rparr>)
   \<and> keys (cluster [''a'', ''b'', ''c'']) - fset {||} \<subseteq> set [''a'', ''b'', ''c'']
   \<and> Wait (errgroup (cluster [''a'', ''b'', ''c'']) {||} ''c'' False)
         (map (sent stubTmc stubSqlerror)
            (scheduled [''a'', ''b'', ''c''] (goroutines (cluster [''a'', ''b'', ''c'']) {||} ''c'')))
       \<noteq> None"
proof -
  let ?tm = "cluster [''a'', ''b'', ''c'']"
  let ?tasks = "scheduled [''a'', ''b'', ''c''] (goroutines ?tm {||} ''c'')"
  let ?rec = "\<lparr>Errors = [statusError ''c'' (External ''deadline exceeded'')]\<rparr>"
  have dk: "distinct (map fst ?tm)" by (simp add: cluster_def)
  have a: "''c'' = tabletAliasToWaitFor stubAliasString (Some \<lparr>Cell = ''c'', Uid = 100\<rparr>)"
    by (simp add: tabletAliasToWaitFor_def stubAliasString_def)
  have m: "map_of ?tm ''c'' = Some (tabletNamed ''c'')" by (simp add: cluster_def)
  have ni: "''c'' |\<notin>| {||}" by simp
  have w: "Wait (errgroup ?tm {||} ''c'' False) (map (sent stubTmc stubSqlerror) ?tasks) = Some (?rec, 3)"
    by (simp add: builder_defs stub_defs)
  have e: "Err (sent stubTmc stubSqlerror (''c'', tabletNamed ''c'', True))
             = Some (statusError ''c'' (External ''deadline exceeded''))"
    by (simp add: builder_defs stub_defs)
  have c: "keys ?tm - fset {||} \<subseteq> set [''a'', ''b'', ''c'']"
    by (simp add: keys_def cluster_def)
  note flaggedTablet = Wait_waits_for_flagged_tablet [OF dk refl a m ni refl, of False stubTmc stubSqlerror]
  from flaggedTablet w e
  have "(''c'', tabletNamed ''c'', True) \<in> set (take 3 ?tasks)
      \<and> statusError ''c'' (External ''deadline exceeded'') \<in> set (Errors ?rec)"
    by blast
  moreover from flaggedTablet c
  have "Wait (errgroup ?tm {||} ''c'' False) (map (sent stubTmc stubSqlerror) ?tasks) \<noteq> None"
    by blast
  ultimately show ?thesis using w c by blast
qed

subsection \<open>The invariant of the snapshot\<close>



subsection \<open>The required successes\<close>

text \<open>
  Claim C5. The threshold is computed from \<^verbatim>\<open>len(tabletMap) - ignoredTablets.Len()\<close>.
  With three tablets and an ignored alias that is not a key of the tablet map, three
  tasks are started, none of the three tablets is ignored, and yet the group is told of
  two tasks and the threshold is one (two when all tablets are to be waited for).
\<close>

theorem requiredSuccesses_ignored_outside_tabletMap:
  "NumRequiredSuccesses (errgroup (cluster [''a'', ''b'', ''c'']) {|''z''|} [] False) = 1
   \<and> NumRequiredSuccesses (errgroup (cluster [''a'', ''b'', ''c'']) {|''z''|} [] True) = 2
   \<and> NumGoroutines (errgroup (cluster [''a'', ''b'', ''c'']) {|''z''|} [] False) = 2
   \<and> map fst (goroutines (cluster [''a'', ''b'', ''c'']) {|''z''|} []) = [''a'', ''b'', ''c'']"
  by (simp add: builder_defs stub_defs)

text \<open>
  When every ignored alias is a key of the tablet map, the threshold is the number of
  started tasks, less one unless all tablets are to be waited for.
\<close>

lemma requiredSuccesses_ignored_inside_tabletMap:
  assumes "distinct (map fst tabletMap)" and "fset ignoredTablets \<subseteq> keys tabletMap"
  shows "NumRequiredSuccesses (errgroup tabletMap ignoredTablets a waitForAllTablets) =
           (if waitForAllTablets then int (length (goroutines tabletMap ignoredTablets a))
            else int (length (goroutines tabletMap ignoredTablets a)) - 1)"
  using numGoRoutines_eq [OF assms, of a] by (simp add: errgroup_def requiredSuccesses_def)

section \<open>Properties of SetReplicationSource\<close>

text \<open>
  Claim C10. When the lookup of the shard primary fails, with whatever error, the function
  returns nil, and the only call it has made is that lookup: neither the durability
  policy nor the tablet manager client is consulted.
\<close>

theorem SetReplicationSource_no_primary:
  assumes "GetShardPrimaryForTablet ts tablet = Inl err"
  shows "SetReplicationSource ts pol tmc tablet = (None, [GetShardPrimaryForTablet_called tablet])"
  using assms by (simp add: SetReplicationSource_def)

text \<open>On the double: the topology server times out.\<close>

theorem SetReplicationSource_no_primary_witness:
  "GetShardPrimaryForTablet stubTopology (Tablet (tabletNamed ''a'')) = Inl (External ''deadline exceeded'')
   \<and> SetReplicationSource stubTopology stubPolicy stubTmc (Tablet (tabletNamed ''a''))
       = (None, [GetShardPrimaryForTablet_called (Tablet (tabletNamed ''a''))])"
proof -
  have f: "GetShardPrimaryForTablet stubTopology (Tablet (tabletNamed ''a''))
             = Inl (External ''deadline exceeded'')"
    by (simp add: stubTopology_def)
  from SetReplicationSource_no_primary [OF f, of stubPolicy stubTmc] f show ?thesis by simp
qed

end
